theory Spec2Isabelle
  imports Main "HOL-Library.AList"
begin

section \<open>Python strings\<close>

text \<open>
  A Python \<^verbatim>\<open>str\<close> is a sequence of Unicode code points; a code point is a natural
  number and \<^verbatim>\<open>len\<close> counts code points. String literals of the source are ASCII and
  are written \<open>S ''...''\<close>.
\<close>

type_synonym ustring = "nat list"

abbreviation (input) S :: "string \<Rightarrow> ustring" where
  "S s \<equiv> map (of_char :: char \<Rightarrow> nat) s"

text \<open>
  The behaviour of the Python runtime and of the libraries on code points beyond ASCII
  (the Unicode character database behind \<^verbatim>\<open>str.lower\<close>, \<^verbatim>\<open>str.isspace\<close>,
  \<^verbatim>\<open>unicodedata\<close>), is not part of the repository. It is a parameter of the model: every
  function below takes a \<open>pylib\<close> and every theorem holds for all of them. On ASCII
  text the functions are defined outright.
\<close>

datatype pyval =
    PNone
  | PBool bool
  | PInt int
  | PFloat ustring
  | PStr ustring
  | PList "pyval list"
  | PDict "(ustring \<times> pyval) list"

text \<open>
  \<open>pyval\<close> are the values that \<^verbatim>\<open>json.loads\<close> produces, the \<^verbatim>\<open>Any\<close> of the source's
  \<^verbatim>\<open>Dict[str, Any]\<close>. A float is given by its \<^verbatim>\<open>repr\<close>, which determines it.
\<close>

record pylib =
  uni_space :: "nat \<Rightarrow> bool"
  uni_alpha :: "nat \<Rightarrow> bool"
  uni_upper :: "nat \<Rightarrow> bool"
  uni_lower :: "nat \<Rightarrow> bool"
  uni_title :: "nat \<Rightarrow> bool"
  uni_combining :: "nat \<Rightarrow> bool"
  uni_str_lower :: "ustring \<Rightarrow> ustring"
  uni_str_capitalize :: "ustring \<Rightarrow> ustring"
  uni_nfkd :: "ustring \<Rightarrow> ustring"
  py_repr :: "pyval \<Rightarrow> ustring"
  to_datetime :: "pyval \<Rightarrow> int option"

text \<open>
  \<^item> \<open>uni_space c\<close>, \<open>uni_alpha c\<close>, \<open>uni_upper c\<close>, \<open>uni_lower c\<close>, \<open>uni_title c\<close>: whether the
    code point \<open>c\<close> is white space (\<^verbatim>\<open>str.isspace\<close>, the class \<^verbatim>\<open>\s\<close>), alphabetic, upper
    case, lower case, title case; asked for \<open>c \<ge> 128\<close> only;
  \<^item> \<open>uni_combining c\<close>: \<^verbatim>\<open>unicodedata.combining(chr(c)) != 0\<close>, asked for \<open>c \<ge> 128\<close> only;
  \<^item> \<open>uni_str_lower s\<close>, \<open>uni_str_capitalize s\<close>, \<open>uni_nfkd s\<close>: \<^verbatim>\<open>s.lower()\<close>,
    \<^verbatim>\<open>s.capitalize()\<close> and \<^verbatim>\<open>unicodedata.normalize("NFKD", s)\<close>, asked for strings with a
    non-ASCII code point only;
  \<^item> \<open>py_repr v\<close>: \<^verbatim>\<open>str(v)\<close>, asked for integers, lists and dictionaries only;
  \<^item> \<open>to_datetime v\<close>: the instant \<^verbatim>\<open>pd.to_datetime(v)\<close>, in nanoseconds since the epoch, when
    it is a time-zone naive timestamp; \<open>None\<close> when the call or the subtraction of
    \<^verbatim>\<open>pd.Timestamp.now()\<close> from its result raises, or the result is \<^verbatim>\<open>NaT\<close>.
\<close>

definition is_ascii :: "ustring \<Rightarrow> bool" where
  "is_ascii s = list_all (\<lambda>c. c < 128) s"

definition ascii_lower :: "nat \<Rightarrow> nat" where
  "ascii_lower c = (if 65 \<le> c \<and> c \<le> 90 then c + 32 else c)"

text \<open>\<^verbatim>\<open>s.lower()\<close>\<close>

definition lower :: "pylib \<Rightarrow> ustring \<Rightarrow> ustring" where
  "lower L s = (if is_ascii s then map ascii_lower s else uni_str_lower L s)"

text \<open>\<^verbatim>\<open>ch.isspace()\<close>, also the class \<^verbatim>\<open>\s\<close> of \<^verbatim>\<open>re\<close> on \<^verbatim>\<open>str\<close> patterns.\<close>

definition is_space :: "pylib \<Rightarrow> nat \<Rightarrow> bool" where
  "is_space L c =
     (if c < 128 then (9 \<le> c \<and> c \<le> 13) \<or> (28 \<le> c \<and> c \<le> 32) else uni_space L c)"

text \<open>\<^verbatim>\<open>s.strip()\<close>\<close>

definition strip :: "pylib \<Rightarrow> ustring \<Rightarrow> ustring" where
  "strip L s = rev (dropWhile (is_space L) (rev (dropWhile (is_space L) s)))"

text \<open>\<^verbatim>\<open>s.startswith(p)\<close>\<close>

fun startswith :: "ustring \<Rightarrow> ustring \<Rightarrow> bool" where
  "startswith s [] = True"
| "startswith [] (p # ps) = False"
| "startswith (c # cs) (p # ps) = (c = p \<and> startswith cs ps)"

text \<open>\<^verbatim>\<open>kw in s\<close> on strings: \<open>kw\<close> occurs in \<open>s\<close> as a contiguous substring.\<close>

fun contains :: "ustring \<Rightarrow> ustring \<Rightarrow> bool" where
  "contains [] kw = (kw = [])"
| "contains (c # cs) kw = (startswith (c # cs) kw \<or> contains cs kw)"

definition ascii_upper :: "nat \<Rightarrow> nat" where
  "ascii_upper c = (if 97 \<le> c \<and> c \<le> 122 then c - 32 else c)"

definition is_alpha :: "pylib \<Rightarrow> nat \<Rightarrow> bool" where
  "is_alpha L c =
     (if c < 128 then (65 \<le> c \<and> c \<le> 90) \<or> (97 \<le> c \<and> c \<le> 122) else uni_alpha L c)"

definition is_upper :: "pylib \<Rightarrow> nat \<Rightarrow> bool" where
  "is_upper L c = (if c < 128 then 65 \<le> c \<and> c \<le> 90 else uni_upper L c)"

definition is_lower :: "pylib \<Rightarrow> nat \<Rightarrow> bool" where
  "is_lower L c = (if c < 128 then 97 \<le> c \<and> c \<le> 122 else uni_lower L c)"

definition is_title :: "pylib \<Rightarrow> nat \<Rightarrow> bool" where
  "is_title L c = (if c < 128 then False else uni_title L c)"

text \<open>\<^verbatim>\<open>s.isalpha()\<close>: not empty and every code point alphabetic.\<close>

definition isalpha :: "pylib \<Rightarrow> ustring \<Rightarrow> bool" where
  "isalpha L s = (s \<noteq> [] \<and> list_all (is_alpha L) s)"

text \<open>
  \<^verbatim>\<open>s.isupper()\<close>: no lower-case or title-case code point and at least one upper-case
  one; CPython answers for a string of length one from that code point's upper-case
  property alone. \<^verbatim>\<open>s.islower()\<close> is the mirror image.
\<close>

definition isupper :: "pylib \<Rightarrow> ustring \<Rightarrow> bool" where
  "isupper L s =
     (case s of
        [] \<Rightarrow> False
      | [c] \<Rightarrow> is_upper L c
      | _ \<Rightarrow> \<not> list_ex (\<lambda>c. is_lower L c \<or> is_title L c) s \<and> list_ex (is_upper L) s)"

definition islower :: "pylib \<Rightarrow> ustring \<Rightarrow> bool" where
  "islower L s =
     (case s of
        [] \<Rightarrow> False
      | [c] \<Rightarrow> is_lower L c
      | _ \<Rightarrow> \<not> list_ex (\<lambda>c. is_upper L c \<or> is_title L c) s \<and> list_ex (is_lower L) s)"

text \<open>\<^verbatim>\<open>s.capitalize()\<close>: the first code point in upper case, the others in lower case.\<close>

definition capitalize :: "pylib \<Rightarrow> ustring \<Rightarrow> ustring" where
  "capitalize L s =
     (if is_ascii s
      then (case s of [] \<Rightarrow> [] | c # cs \<Rightarrow> ascii_upper c # map ascii_lower cs)
      else uni_str_capitalize L s)"

text \<open>\<^verbatim>\<open>unicodedata.normalize("NFKD", s)\<close> and \<^verbatim>\<open>unicodedata.combining(ch)\<close>.\<close>

definition nfkd :: "pylib \<Rightarrow> ustring \<Rightarrow> ustring" where
  "nfkd L s = (if is_ascii s then s else uni_nfkd L s)"

definition combining :: "pylib \<Rightarrow> nat \<Rightarrow> bool" where
  "combining L c = (if c < 128 then False else uni_combining L c)"

text \<open>
  \<^verbatim>\<open>s.split()\<close>: the maximal runs of code points that are not white space.
\<close>

function py_split :: "pylib \<Rightarrow> ustring \<Rightarrow> ustring list" where
  "py_split L s =
     (case dropWhile (is_space L) s of
        [] \<Rightarrow> []
      | c # cs \<Rightarrow>
          (c # takeWhile (\<lambda>x. \<not> is_space L x) cs)
            # py_split L (dropWhile (\<lambda>x. \<not> is_space L x) cs))"
  by pat_completeness auto
termination
proof (relation "measure (\<lambda>(L, s). length s)")
  fix L :: pylib and s :: ustring and c cs
  assume "dropWhile (is_space L) s = c # cs"
  then have "length cs < length s"
    using length_dropWhile_le [of "is_space L" s] by simp
  moreover have "length (dropWhile (\<lambda>x. \<not> is_space L x) cs) \<le> length cs"
    by (rule length_dropWhile_le)
  ultimately show "((L, dropWhile (\<lambda>x. \<not> is_space L x) cs), (L, s)) \<in> measure (\<lambda>(L, s). length s)"
    by simp
qed simp

text \<open>\<^verbatim>\<open>" ".join(toks)\<close>\<close>

fun join_space :: "ustring list \<Rightarrow> ustring" where
  "join_space [] = []"
| "join_space [t] = t"
| "join_space (t # u # ts) = t @ 32 # join_space (u # ts)"

text \<open>
  \<^verbatim>\<open>re.sub(r"C+", " ", s)\<close> for a character class \<open>C\<close>: every maximal run of code points
  of the class becomes one space.
\<close>

function sub_runs :: "(nat \<Rightarrow> bool) \<Rightarrow> ustring \<Rightarrow> ustring" where
  "sub_runs C [] = []"
| "sub_runs C (c # cs) =
     (if C c then 32 # sub_runs C (dropWhile C cs) else c # sub_runs C cs)"
  by pat_completeness auto
termination
  by (relation "measure (\<lambda>(C, s). length s)")
     (auto simp: less_Suc_eq_le length_dropWhile_le)

section \<open>Values and dictionaries\<close>

text \<open>\<^verbatim>\<open>str(v)\<close>\<close>

definition py_str :: "pylib \<Rightarrow> pyval \<Rightarrow> ustring" where
  "py_str L v =
     (case v of
        PStr s \<Rightarrow> s
      | PNone \<Rightarrow> S ''None''
      | PBool b \<Rightarrow> (if b then S ''True'' else S ''False'')
      | PFloat r \<Rightarrow> r
      | _ \<Rightarrow> py_repr L v)"

text \<open>The truth value of \<^verbatim>\<open>v\<close> in \<^verbatim>\<open>if v:\<close>.\<close>

definition truthy :: "pyval \<Rightarrow> bool" where
  "truthy v =
     (case v of
        PNone \<Rightarrow> False
      | PBool b \<Rightarrow> b
      | PInt n \<Rightarrow> n \<noteq> 0
      | PFloat r \<Rightarrow> r \<noteq> S ''0.0'' \<and> r \<noteq> S ''-0.0''
      | PStr s \<Rightarrow> s \<noteq> []
      | PList xs \<Rightarrow> xs \<noteq> []
      | PDict kvs \<Rightarrow> kvs \<noteq> [])"

text \<open>Lists and dictionaries cannot be hashed: using one as a dictionary key raises.\<close>

definition hashable :: "pyval \<Rightarrow> bool" where
  "hashable v = (case v of PList xs \<Rightarrow> False | PDict kvs \<Rightarrow> False | _ \<Rightarrow> True)"

datatype py_error = TypeError | ValueError

text \<open>
  \<^verbatim>\<open>data.get(key, default)\<close> on the analysis dictionary, whose keys are strings.
\<close>

definition dict_get :: "(ustring \<rightharpoonup> pyval) \<Rightarrow> ustring \<Rightarrow> pyval \<Rightarrow> pyval" where
  "dict_get data k dflt = (case data k of None \<Rightarrow> dflt | Some v \<Rightarrow> v)"

text \<open>
  \<^verbatim>\<open>weights.get(v, default)\<close> on a table whose keys are string literals: the key \<open>v\<close> is
  hashed first, which raises \<^verbatim>\<open>TypeError\<close> on a list or a dictionary; a value that is not
  a string equals no key.
\<close>

definition weights_get :: "(ustring \<times> int) list \<Rightarrow> pyval \<Rightarrow> int \<Rightarrow> py_error + int" where
  "weights_get weights v dflt =
     (if \<not> hashable v then Inl TypeError
      else case v of
             PStr s \<Rightarrow> (case map_of weights s of None \<Rightarrow> Inr dflt | Some w \<Rightarrow> Inr w)
           | _ \<Rightarrow> Inr dflt)"

section \<open>Project name unification\<close>

subsection \<open>Normalisation\<close>

text \<open>
  A literal of a pattern compiled with \<^verbatim>\<open>re.I\<close>, matched at the start of \<open>s\<close>: the rest of
  \<open>s\<close> after it. The literals below are lower-case ASCII letters none of which has a
  case variant outside ASCII, so a code point matches a letter when its ASCII lower case
  is that letter.
\<close>

fun match_literal_ci :: "ustring \<Rightarrow> ustring \<Rightarrow> ustring option" where
  "match_literal_ci [] s = Some s"
| "match_literal_ci (p # ps) [] = None"
| "match_literal_ci (p # ps) (c # cs) =
     (if ascii_lower c = p then match_literal_ci ps cs else None)"

text \<open>
  One alternative of \<^verbatim>\<open>_PROJECT_PREFIX_RE\<close>: the word, then \<^verbatim>\<open>\.?\<close> when \<open>dot\<close> is set, then
  \<^verbatim>\<open>\s+\<close>, both greedy. A dot is not white space, so giving the dot back never lets
  \<^verbatim>\<open>\s+\<close> match. The result is the rest of \<open>s\<close> after the match.
\<close>

definition match_prefix_alt :: "pylib \<Rightarrow> ustring \<Rightarrow> bool \<Rightarrow> ustring \<Rightarrow> ustring option" where
  "match_prefix_alt L word dot s =
     (case match_literal_ci word s of
        None \<Rightarrow> None
      | Some r \<Rightarrow>
          let r' = (case r of c # cs \<Rightarrow> if dot \<and> c = 46 then cs else r | [] \<Rightarrow> r)
          in (case r' of
                [] \<Rightarrow> None
              | c # cs \<Rightarrow> if is_space L c then Some (dropWhile (is_space L) cs) else None))"

text \<open>
  \<^verbatim>\<open>_PROJECT_PREFIX_RE = re.compile(r"^(proyecto|project|proj\.?|proy\.?)\s+", re.I)\<close>:
  the alternatives are tried in their order, at the start of the string only.
  \<open>PROJECT_PREFIX_RE_match\<close> is \<^verbatim>\<open>_PROJECT_PREFIX_RE.match(s)\<close>, as the rest of \<open>s\<close> after
  the match, and \<open>PROJECT_PREFIX_RE_sub\<close> is \<^verbatim>\<open>_PROJECT_PREFIX_RE.sub("", s)\<close>.
\<close>

definition PROJECT_PREFIX_RE_match :: "pylib \<Rightarrow> ustring \<Rightarrow> ustring option" where
  "PROJECT_PREFIX_RE_match L s =
     (case match_prefix_alt L (S ''proyecto'') False s of
        Some r \<Rightarrow> Some r
      | None \<Rightarrow>
     (case match_prefix_alt L (S ''project'') False s of
        Some r \<Rightarrow> Some r
      | None \<Rightarrow>
     (case match_prefix_alt L (S ''proj'') True s of
        Some r \<Rightarrow> Some r
      | None \<Rightarrow> match_prefix_alt L (S ''proy'') True s)))"

definition PROJECT_PREFIX_RE_sub :: "pylib \<Rightarrow> ustring \<Rightarrow> ustring" where
  "PROJECT_PREFIX_RE_sub L s = (case PROJECT_PREFIX_RE_match L s of None \<Rightarrow> s | Some r \<Rightarrow> r)"

definition GENERIC_TAIL_TOKENS :: "ustring list" where
  "GENERIC_TAIL_TOKENS = [S ''implementation'', S ''implementacion'', S ''impl'']"

definition GENERIC_HEAD_TOKENS :: "ustring list" where
  "GENERIC_HEAD_TOKENS = [S ''implementation'', S ''implementacion'', S ''impl'']"

definition PROJECT_STOPWORDS :: "ustring list" where
  "PROJECT_STOPWORDS =
     [S ''de'', S ''del'', S ''la'', S ''el'', S ''los'', S ''las'', S ''of'', S ''the'',
      S ''and'', S ''y'']"

text \<open>
  The loop of \<^verbatim>\<open>_strip_generic_head_tokens\<close> on the token list: while the first token is
  generic, drop it and the stop words that follow it.
\<close>

function strip_head_loop :: "ustring list \<Rightarrow> ustring list" where
  "strip_head_loop [] = []"
| "strip_head_loop (t # toks) =
     (if t \<in> set GENERIC_HEAD_TOKENS
      then strip_head_loop (dropWhile (\<lambda>x. x \<in> set PROJECT_STOPWORDS) toks)
      else t # toks)"
  by pat_completeness auto
termination
  by (relation "measure length") (auto simp: less_Suc_eq_le length_dropWhile_le)

definition strip_generic_head_tokens :: "pylib \<Rightarrow> ustring \<Rightarrow> ustring" where
  "strip_generic_head_tokens L norm_key =
     (if norm_key = [] then []
      else strip L (join_space (strip_head_loop (py_split L norm_key))))"

text \<open>
  \<^verbatim>\<open>_strip_generic_tail_tokens\<close>: while the last token is generic, drop it.
\<close>

definition strip_generic_tail_tokens :: "pylib \<Rightarrow> ustring \<Rightarrow> ustring" where
  "strip_generic_tail_tokens L norm_key =
     (if norm_key = [] then []
      else strip L (join_space
             (rev (dropWhile (\<lambda>x. x \<in> set GENERIC_TAIL_TOKENS) (rev (py_split L norm_key))))))"

text \<open>The class \<^verbatim>\<open>[^a-z0-9\s]\<close>.\<close>

definition not_key_char :: "pylib \<Rightarrow> nat \<Rightarrow> bool" where
  "not_key_char L c = (\<not> ((97 \<le> c \<and> c \<le> 122) \<or> (48 \<le> c \<and> c \<le> 57) \<or> is_space L c))"

text \<open>\<^verbatim>\<open>_proj_norm_key_raw(s)\<close> on a string.\<close>

definition proj_norm_key_raw :: "pylib \<Rightarrow> ustring \<Rightarrow> ustring" where
  "proj_norm_key_raw L s0 =
     (let s = strip L s0 in
      if s = [] then []
      else
        let s = strip L (PROJECT_PREFIX_RE_sub L s);
            s = filter (\<lambda>ch. \<not> combining L ch) (nfkd L (lower L s));
            s = sub_runs (not_key_char L) s;
            s = strip L (sub_runs (is_space L) s)
        in s)"

text \<open>
  The first two lines of \<^verbatim>\<open>_proj_norm_key_raw\<close> and of \<^verbatim>\<open>_proj_display_name\<close>:
  \<^verbatim>\<open>None\<close> becomes the empty string, another value that is not a string its \<^verbatim>\<open>str\<close>.
\<close>

definition coerce_str :: "pylib \<Rightarrow> pyval \<Rightarrow> ustring" where
  "coerce_str L v = (case v of PStr s \<Rightarrow> s | PNone \<Rightarrow> [] | _ \<Rightarrow> py_str L v)"

text \<open>\<^verbatim>\<open>_proj_norm_key_raw(v)\<close> on any value.\<close>

definition proj_norm_key_raw_any :: "pylib \<Rightarrow> pyval \<Rightarrow> ustring" where
  "proj_norm_key_raw_any L v = proj_norm_key_raw L (coerce_str L v)"

definition proj_norm_key :: "pylib \<Rightarrow> ustring \<Rightarrow> ustring" where
  "proj_norm_key L s =
     strip_generic_tail_tokens L (strip_generic_head_tokens L (proj_norm_key_raw L s))"

definition proj_display_name :: "pylib \<Rightarrow> ustring \<Rightarrow> ustring" where
  "proj_display_name L s0 =
     (let s = strip L s0 in
      if s = [] then []
      else
        let s = strip L (PROJECT_PREFIX_RE_sub L s)
        in strip L (sub_runs (is_space L) s))"

definition is_abbrev_orig :: "pylib \<Rightarrow> ustring \<Rightarrow> bool" where
  "is_abbrev_orig L orig =
     (let disp = proj_display_name L orig
      in disp \<noteq> [] \<and> isalpha L disp \<and> isupper L disp \<and> 1 \<le> length disp \<and> length disp \<le> 3)"

subsection \<open>The similarity ratio of \<^verbatim>\<open>difflib.SequenceMatcher\<close>\<close>

text \<open>
  \<^verbatim>\<open>SequenceMatcher(None, a, b)\<close> has no junk. Its index \<^verbatim>\<open>b2j\<close> lists for every element
  of \<open>b\<close> the positions where it stands, in increasing order; when \<open>b\<close> has 200 elements
  or more, the elements that stand at more than \<open>len(b) // 100 + 1\<close> positions are
  popular and are left out of the index.
\<close>

definition b2j :: "ustring \<Rightarrow> nat \<Rightarrow> nat list" where
  "b2j b c =
     (if 200 \<le> length b \<and> length b div 100 + 1 < count_list b c then []
      else filter (\<lambda>j. b ! j = c) [0..<length b])"

type_synonym match = "nat \<times> nat \<times> nat"

text \<open>
  The body of the inner loop of \<^verbatim>\<open>find_longest_match\<close>, for \<open>a[i] = b[j]\<close>:
  \<^verbatim>\<open>k = newj2len[j] = j2len.get(j-1, 0) + 1\<close>, and the best match is replaced when \<open>k\<close> is
  larger than its size. A dictionary of lengths is a function that is \<open>0\<close> off its keys.
\<close>

definition flm_inner ::
  "nat \<Rightarrow> (nat \<Rightarrow> nat) \<Rightarrow> match \<times> (nat \<Rightarrow> nat) \<Rightarrow> nat \<Rightarrow> match \<times> (nat \<Rightarrow> nat)" where
  "flm_inner i j2len st j =
     (case st of
        ((besti, bestj, bestsize), newj2len) \<Rightarrow>
          let k = (if j = 0 then 0 else j2len (j - 1)) + 1
          in ((if k > bestsize then (i + 1 - k, j + 1 - k, k) else (besti, bestj, bestsize)),
              newj2len(j := k)))"

text \<open>
  One round of the outer loop, for the position \<open>i\<close> of \<open>a\<close>: the positions \<open>j\<close> of
  \<open>a[i]\<close> in \<open>b\<close> with \<open>blo \<le> j < bhi\<close>, in increasing order.
\<close>

definition flm_row ::
  "ustring \<Rightarrow> ustring \<Rightarrow> nat \<Rightarrow> nat \<Rightarrow> match \<times> (nat \<Rightarrow> nat) \<Rightarrow> nat \<Rightarrow> match \<times> (nat \<Rightarrow> nat)" where
  "flm_row a b blo bhi st i =
     foldl (flm_inner i (snd st)) (fst st, (\<lambda>j. 0))
       (filter (\<lambda>j. blo \<le> j \<and> j < bhi) (b2j b (a ! i)))"

text \<open>
  The two loops that extend the best match by equal elements on each end. (The two
  loops after them extend by junk, of which there is none.)
\<close>

function extend_left :: "ustring \<Rightarrow> ustring \<Rightarrow> nat \<Rightarrow> nat \<Rightarrow> match \<Rightarrow> match" where
  "extend_left a b alo blo (besti, bestj, bestsize) =
     (if besti > alo \<and> bestj > blo \<and> a ! (besti - 1) = b ! (bestj - 1)
      then extend_left a b alo blo (besti - 1, bestj - 1, bestsize + 1)
      else (besti, bestj, bestsize))"
  by pat_completeness auto
termination
  by (relation "measure (\<lambda>(a, b, alo, blo, besti, bestj, bestsize). besti)") auto

function extend_right :: "ustring \<Rightarrow> ustring \<Rightarrow> nat \<Rightarrow> nat \<Rightarrow> match \<Rightarrow> match" where
  "extend_right a b ahi bhi (besti, bestj, bestsize) =
     (if besti + bestsize < ahi \<and> bestj + bestsize < bhi
         \<and> a ! (besti + bestsize) = b ! (bestj + bestsize)
      then extend_right a b ahi bhi (besti, bestj, bestsize + 1)
      else (besti, bestj, bestsize))"
  by pat_completeness auto
termination
  by (relation "measure (\<lambda>(a, b, ahi, bhi, besti, bestj, bestsize). ahi - (besti + bestsize))")
     auto

text \<open>\<^verbatim>\<open>find_longest_match(alo, ahi, blo, bhi)\<close>\<close>

definition find_longest_match :: "ustring \<Rightarrow> ustring \<Rightarrow> nat \<Rightarrow> nat \<Rightarrow> nat \<Rightarrow> nat \<Rightarrow> match" where
  "find_longest_match a b alo ahi blo bhi =
     extend_right a b ahi bhi
       (extend_left a b alo blo
          (fst (foldl (flm_row a b blo bhi) ((alo, blo, 0), (\<lambda>j. 0)) [alo..<ahi])))"

text \<open>
  The best match of \<open>find_longest_match\<close> lies inside \<open>a[alo:ahi]\<close>: after \<open>n\<close> rounds
  of the outer loop no length exceeds \<open>n\<close>, and a match of length \<open>k\<close> found in the round
  of \<open>i\<close> starts at \<open>i + 1 - k\<close>. This is what makes the recursion on the two sides of the
  best match terminate.
\<close>

definition flm_ok :: "nat \<Rightarrow> nat \<Rightarrow> match \<times> (nat \<Rightarrow> nat) \<Rightarrow> bool" where
  "flm_ok alo n st =
     (case st of
        ((i, j, k), j2len) \<Rightarrow>
          (k = 0 \<and> i = alo \<or> 0 < k \<and> alo \<le> i \<and> i + k \<le> alo + n) \<and> (\<forall>x. j2len x \<le> n))"

lemma flm_inner_ok:
  assumes "\<forall>x. j2len x \<le> n" and "flm_ok alo (Suc n) st"
  shows "flm_ok alo (Suc n) (flm_inner (alo + n) j2len st j)"
proof -
  obtain i j' k new where st: "st = ((i, j', k), new)" by (metis prod.exhaust)
  have "j2len (j - 1) \<le> n" using assms(1) by blast
  then show ?thesis
    using assms(2) unfolding st flm_ok_def flm_inner_def Let_def
    by (auto split: if_splits)
qed

lemma flm_inner_fold_ok:
  assumes "\<forall>x. j2len x \<le> n"
  shows "flm_ok alo (Suc n) st \<Longrightarrow> flm_ok alo (Suc n) (foldl (flm_inner (alo + n) j2len) st js)"
  by (induction js arbitrary: st) (simp_all add: flm_inner_ok [OF assms])

lemma flm_row_ok:
  assumes "flm_ok alo n st"
  shows "flm_ok alo (Suc n) (flm_row a b blo bhi st (alo + n))"
proof -
  obtain best j2len where st: "st = (best, j2len)" by (metis prod.exhaust)
  have 1: "\<forall>x. j2len x \<le> n" using assms unfolding st flm_ok_def by (auto split: prod.splits)
  have 2: "flm_ok alo (Suc n) (best, (\<lambda>j. 0))"
    using assms unfolding st flm_ok_def by (auto split: prod.splits)
  show ?thesis
    unfolding flm_row_def st using flm_inner_fold_ok [OF 1 2] by simp
qed

lemma flm_rows_ok:
  "flm_ok alo n (foldl (flm_row a b blo bhi) ((alo, blo, 0), (\<lambda>j. 0)) [alo..<alo + n])"
proof (induction n)
  case 0
  show ?case by (simp add: flm_ok_def)
next
  case (Suc n)
  then show ?case by (simp add: flm_row_ok)
qed

lemma extend_left_ok:
  "extend_left a b alo blo (i, j, k) = (i', j', k') \<Longrightarrow> alo \<le> i \<Longrightarrow>
   alo \<le> i' \<and> i' + k' = i + k \<and> k \<le> k' \<and> (k' = 0 \<longrightarrow> i' = i)"
proof (induction a b alo blo "(i, j, k)" arbitrary: i j k rule: extend_left.induct)
  case (1 a b alo blo besti bestj bestsize)
  show ?case
  proof (cases "besti > alo \<and> bestj > blo \<and> a ! (besti - 1) = b ! (bestj - 1)")
    case True
    then have "extend_left a b alo blo (besti - 1, bestj - 1, bestsize + 1) = (i', j', k')"
      using "1.prems"(1) by simp
    moreover have "alo \<le> besti - 1" using True by linarith
    ultimately have "alo \<le> i' \<and> i' + k' = besti - 1 + (bestsize + 1) \<and> bestsize + 1 \<le> k'
        \<and> (k' = 0 \<longrightarrow> i' = besti - 1)"
      using "1.hyps" [OF True] by blast
    then show ?thesis using True by auto
  next
    case False
    then show ?thesis using "1.prems" by auto
  qed
qed

lemma extend_right_ok:
  "extend_right a b ahi bhi (i, j, k) = (i', j', k') \<Longrightarrow>
   i' = i \<and> k \<le> k' \<and> (k < k' \<longrightarrow> i + k' \<le> ahi)"
proof (induction a b ahi bhi "(i, j, k)" arbitrary: i j k rule: extend_right.induct)
  case (1 a b ahi bhi besti bestj bestsize)
  show ?case
  proof (cases "besti + bestsize < ahi \<and> bestj + bestsize < bhi
         \<and> a ! (besti + bestsize) = b ! (bestj + bestsize)")
    case True
    then have "extend_right a b ahi bhi (besti, bestj, bestsize + 1) = (i', j', k')"
      using "1.prems"(1) by simp
    from "1.hyps" [OF True this] True show ?thesis by auto
  next
    case False
    then show ?thesis using "1.prems" by auto
  qed
qed

lemma find_longest_match_bounds:
  assumes "find_longest_match a b alo ahi blo bhi = (i, j, k)" and "0 < k"
  shows "alo \<le> i \<and> i + k \<le> ahi"
proof -
  obtain i0 j0 k0 where m: "fst (foldl (flm_row a b blo bhi) ((alo, blo, 0), (\<lambda>j. 0)) [alo..<ahi]) = (i0, j0, k0)"
    by (metis prod.exhaust)
  have 0: "k0 = 0 \<and> i0 = alo \<or> 0 < k0 \<and> alo \<le> i0 \<and> i0 + k0 \<le> ahi"
  proof (cases "alo \<le> ahi")
    case True
    then have "ahi = alo + (ahi - alo)" by simp
    then have "flm_ok alo (ahi - alo) (foldl (flm_row a b blo bhi) ((alo, blo, 0), (\<lambda>j. 0)) [alo..<ahi])"
      using flm_rows_ok [of alo "ahi - alo" a b blo bhi] by simp
    then show ?thesis using m True unfolding flm_ok_def by (auto split: prod.splits)
  next
    case False
    then show ?thesis using m by simp
  qed
  obtain i1 j1 k1 where l: "extend_left a b alo blo (i0, j0, k0) = (i1, j1, k1)"
    by (metis prod.exhaust)
  have r: "extend_right a b ahi bhi (i1, j1, k1) = (i, j, k)"
    using assms(1) unfolding find_longest_match_def m l .
  have a0: "alo \<le> i0" using 0 by auto
  note L = extend_left_ok [OF l a0]
  note R = extend_right_ok [OF r]
  show ?thesis
  proof (cases "k1 < k")
    case True
    then show ?thesis using L R by auto
  next
    case False
    then have "k = k1" using R by auto
    then show ?thesis using L R 0 assms(2) by auto
  qed
qed

text \<open>
  The sum of the sizes of the blocks of \<^verbatim>\<open>get_matching_blocks()\<close>: the longest match of
  \<open>a[alo:ahi]\<close> and \<open>b[blo:bhi]\<close>, then the blocks to its left and to its right. (The
  source keeps the pending ranges on a stack; the sum does not depend on their order.)
\<close>

function matching_size :: "ustring \<Rightarrow> ustring \<Rightarrow> nat \<Rightarrow> nat \<Rightarrow> nat \<Rightarrow> nat \<Rightarrow> nat" where
  "matching_size a b alo ahi blo bhi =
     (case find_longest_match a b alo ahi blo bhi of
        (i, j, k) \<Rightarrow>
          if k = 0 then 0
          else k + (if alo < i \<and> blo < j then matching_size a b alo i blo j else 0)
                 + (if i + k < ahi \<and> j + k < bhi then matching_size a b (i + k) ahi (j + k) bhi
                    else 0))"
  by pat_completeness auto
termination
  apply (relation "measure (\<lambda>(a, b, alo, ahi, blo, bhi). ahi - alo)")
    apply simp
  subgoal for a b alo ahi blo bhi i y j k
    using find_longest_match_bounds [of a b alo ahi blo bhi i j k] by auto
  subgoal for a b alo ahi blo bhi i y j k
    using find_longest_match_bounds [of a b alo ahi blo bhi i j k] by auto
  done

text \<open>
  \<^verbatim>\<open>ratio() >= pct / 100\<close>. The ratio is the float \<open>2.0 * M / T\<close>, with \<open>M\<close> the matching
  size and \<open>T\<close> the sum of the two lengths (and \<open>1.0\<close> when \<open>T\<close> is \<open>0\<close>). For the bounds
  \<open>0.88\<close> and \<open>0.80\<close> of the source and \<open>T\<close> below \<open>10^14\<close>, the comparison of the two
  floats is the comparison of the two fractions, which is the one below.
\<close>

definition ratio_at_least :: "ustring \<Rightarrow> ustring \<Rightarrow> nat \<Rightarrow> bool" where
  "ratio_at_least a b pct =
     (pct * (length a + length b) \<le> 200 * matching_size a b 0 (length a) 0 (length b))"

subsection \<open>Similar names\<close>

text \<open>
  The abbreviation rule of \<^verbatim>\<open>_projects_similar\<close>, for the abbreviation \<open>a\<close>; the source
  has it twice, the second time with the two names swapped.
\<close>

definition abbrev_matches :: "pylib \<Rightarrow> ustring \<Rightarrow> ustring \<Rightarrow> ustring \<Rightarrow> bool" where
  "abbrev_matches L a_key a_orig b_key =
     (is_abbrev_orig L a_orig \<and> length a_key \<le> 3
      \<and> (startswith b_key (a_key @ S '' '')
           \<or> (startswith b_key a_key \<and> isalpha L b_key \<and> length b_key \<ge> 4)
           \<or> (case py_split L b_key of [] \<Rightarrow> False | t # ts \<Rightarrow> t = a_key \<and> length a_key \<le> 4)))"

definition projects_similar :: "pylib \<Rightarrow> ustring \<Rightarrow> ustring \<Rightarrow> ustring \<Rightarrow> ustring \<Rightarrow> bool" where
  "projects_similar L a_key b_key a_orig b_orig =
     (if a_key = [] \<or> b_key = [] then False
      else if a_key = b_key then True
      else if ratio_at_least a_key b_key 88 then True
      else if (contains b_key a_key \<or> contains a_key b_key)
              \<and> min (length a_key) (length b_key) \<ge> 4 then True
      else if max (length a_key) (length b_key) \<le> 12
              \<and> take 3 a_key = take 3 b_key \<and> ratio_at_least a_key b_key 80 then True
      else if abbrev_matches L a_key a_orig b_key then True
      else if abbrev_matches L b_key b_orig a_key then True
      else False)"

subsection \<open>The canonical map\<close>

text \<open>A value of the project column that is treated as missing, after \<^verbatim>\<open>str(v).strip()\<close>.\<close>

definition null_like :: "pylib \<Rightarrow> ustring \<Rightarrow> bool" where
  "null_like L s = (s = [] \<or> lower L s \<in> set [S ''none'', S ''nan'', S ''null''])"

text \<open>
  The counting loop of \<^verbatim>\<open>build_project_canonical_map\<close>. A dictionary is an association
  list in the order of insertion; \<open>AList.update\<close> stores a value as \<^verbatim>\<open>d[k] = v\<close> does.
\<close>

definition count_value :: "pylib \<Rightarrow> (ustring \<times> int) list \<Rightarrow> pyval \<Rightarrow> (ustring \<times> int) list" where
  "count_value L counts v =
     (if v = PNone then counts
      else
        let s = strip L (py_str L v)
        in if null_like L s then counts
           else AList.update s ((case map_of counts s of None \<Rightarrow> 0 | Some c \<Rightarrow> c) + 1) counts)"

text \<open>
  \<^verbatim>\<open>sorted(xs, key=...)\<close> with a key that is a pair: tuples compare lexicographically and
  the sort is stable.
\<close>

definition key_le :: "int \<times> nat \<Rightarrow> int \<times> nat \<Rightarrow> bool" where
  "key_le k1 k2 = (fst k1 < fst k2 \<or> (fst k1 = fst k2 \<and> snd k1 \<le> snd k2))"

fun insert_sorted :: "('a \<Rightarrow> int \<times> nat) \<Rightarrow> 'a \<Rightarrow> 'a list \<Rightarrow> 'a list" where
  "insert_sorted f x [] = [x]"
| "insert_sorted f x (y # ys) =
     (if key_le (f x) (f y) then x # y # ys else y # insert_sorted f x ys)"

definition py_sorted :: "('a \<Rightarrow> int \<times> nat) \<Rightarrow> 'a list \<Rightarrow> 'a list" where
  "py_sorted f xs = foldr (insert_sorted f) xs []"

record cluster =
  cl_key :: ustring
  cl_members :: "ustring list"
  cl_repr :: ustring

text \<open>
  The inner loop of the clustering: \<open>orig\<close> joins the first cluster whose key is similar
  to its own, or starts a new cluster at the end of the list.
\<close>

fun place :: "pylib \<Rightarrow> ustring \<Rightarrow> ustring \<Rightarrow> cluster list \<Rightarrow> cluster list" where
  "place L key orig [] = [\<lparr>cl_key = key, cl_members = [orig], cl_repr = orig\<rparr>]"
| "place L key orig (cl # clusters) =
     (if projects_similar L key (cl_key cl) orig (cl_repr cl)
      then cl\<lparr>cl_members := cl_members cl @ [orig]\<rparr> # clusters
      else cl # place L key orig clusters)"

definition cluster_step :: "pylib \<Rightarrow> cluster list \<Rightarrow> ustring \<Rightarrow> cluster list" where
  "cluster_step L clusters orig =
     (let key = proj_norm_key L orig
      in if key = [] then clusters else place L key orig clusters)"

text \<open>\<^verbatim>\<open>_cand_score(cand)\<close>\<close>

definition cand_score :: "pylib \<Rightarrow> (ustring \<times> int) list \<Rightarrow> ustring \<Rightarrow> int" where
  "cand_score L counts cand =
     (let freq = (case map_of counts cand of None \<Rightarrow> 1 | Some c \<Rightarrow> c);
          disp = proj_display_name L cand;
          prefix_pen = (if PROJECT_PREFIX_RE_match L (strip L cand) \<noteq> None then 1 else 0);
          length_pen = (if disp \<noteq> [] then int (length disp) else int (length cand));
          raw_key = proj_norm_key_raw L cand;
          stripped_key = strip_generic_tail_tokens L raw_key;
          tail_pen = (if raw_key \<noteq> [] \<and> stripped_key \<noteq> [] \<and> raw_key \<noteq> stripped_key
                      then 1 else 0)
      in freq * 100 - prefix_pen * 20 - tail_pen * 25 - length_pen)"

text \<open>
  \<^verbatim>\<open>max(xs, key=f)\<close>: the first element with the largest key; \<^verbatim>\<open>ValueError\<close> on an empty
  list.
\<close>

fun py_max :: "('a \<Rightarrow> int) \<Rightarrow> 'a list \<Rightarrow> py_error + 'a" where
  "py_max f [] = Inl ValueError"
| "py_max f (x # xs) = Inr (foldl (\<lambda>best y. if f y > f best then y else best) x xs)"

text \<open>
  The label that \<open>best\<close> gives its cluster: its display name (the stripped name, should
  the display name be empty), capitalised when it is all lower case.
\<close>

definition canon_label :: "pylib \<Rightarrow> ustring \<Rightarrow> ustring" where
  "canon_label L best =
     (let canon = (if proj_display_name L best \<noteq> [] then proj_display_name L best
                   else strip L best)
      in if islower L canon then capitalize L canon else canon)"

text \<open>The canonical name of a cluster with the given members.\<close>

definition canonical_name ::
  "pylib \<Rightarrow> (ustring \<times> int) list \<Rightarrow> ustring list \<Rightarrow> py_error + ustring" where
  "canonical_name L counts members =
     (case py_max (cand_score L counts) members of
        Inl e \<Rightarrow> Inl e
      | Inr best \<Rightarrow> Inr (canon_label L best))"

text \<open>The last loop: every member of every cluster is mapped to the cluster's name.\<close>

fun map_clusters ::
  "pylib \<Rightarrow> (ustring \<times> int) list \<Rightarrow> (ustring \<times> ustring) list \<Rightarrow> cluster list
     \<Rightarrow> py_error + (ustring \<times> ustring) list" where
  "map_clusters L counts mapping [] = Inr mapping"
| "map_clusters L counts mapping (cl # clusters) =
     (case canonical_name L counts (cl_members cl) of
        Inl e \<Rightarrow> Inl e
      | Inr canon \<Rightarrow>
          map_clusters L counts
            (foldl (\<lambda>mapping m. AList.update m canon mapping) mapping (cl_members cl))
            clusters)"

text \<open>
  \<^verbatim>\<open>build_project_canonical_map(project_values)\<close>. The names are sorted on
  \<^verbatim>\<open>(-counts[x], len(x))\<close>; the model sorts the entries of \<open>counts\<close>, which hold each
  name with its count.
\<close>

definition build_project_canonical_map ::
  "pylib \<Rightarrow> pyval list \<Rightarrow> py_error + (ustring \<times> ustring) list" where
  "build_project_canonical_map L project_values =
     (let counts = foldl (count_value L) [] project_values
      in if counts = [] then Inr []
         else
           let uniques = map fst (py_sorted (\<lambda>(x, c). (- c, length x)) counts);
               clusters = foldl (cluster_step L) [] uniques
           in map_clusters L counts [] clusters)"

text \<open>The function \<^verbatim>\<open>_apply\<close> of \<^verbatim>\<open>unify_projects_in_df\<close>.\<close>

definition apply_map :: "pylib \<Rightarrow> (ustring \<times> ustring) list \<Rightarrow> pyval \<Rightarrow> pyval" where
  "apply_map L proj_map v =
     (if v = PNone then PStr (S ''None'')
      else
        let s = strip L (py_str L v)
        in if null_like L s then PStr (S ''None'')
           else PStr (case map_of proj_map s of None \<Rightarrow> s | Some canon \<Rightarrow> canon))"

text \<open>
  \<^verbatim>\<open>unify_projects_in_df(df, project_col)\<close>, on the values of the project column of a data
  frame that has this column; the result is the new column. (A data frame that is
  \<^verbatim>\<open>None\<close> or has no such column is returned as it is.)
\<close>

definition unify_projects_in_df :: "pylib \<Rightarrow> pyval list \<Rightarrow> py_error + pyval list" where
  "unify_projects_in_df L col =
     (if col = [] then Inr col
      else
        case build_project_canonical_map L col of
          Inl e \<Rightarrow> Inl e
        | Inr proj_map \<Rightarrow>
            if proj_map = [] then Inr col else Inr (map (apply_map L proj_map) col))"

section \<open>Priority scoring\<close>

definition type_weights :: "(ustring \<times> int) list" where
  "type_weights =
     [(S ''Approval_Request'', 25), (S ''Decision_Required'', 25), (S ''External_Request'', 20),
      (S ''Action_Request'', 15), (S ''Meeting'', 10), (S ''Report_Update'', 5),
      (S ''FYI_Informational'', 0), (S ''Notification_System'', - 15)]"

definition spam_keywords :: "ustring list" where
  "spam_keywords =
     [S ''newsletter'', S ''promotional'', S ''black friday'', S ''sale'', S ''unsubscribe'',
      S ''club novartis'']"

definition marketing_triggers :: "ustring list" where
  "marketing_triggers =
     [S ''trial'', S ''free access'', S ''survey'', S ''encuesta'', S ''webinar'', S ''demo'',
      S ''easyvideo'', S ''trail'']"

definition closure_keywords :: "ustring list" where
  "closure_keywords =
     [S ''confirmed completion'', S ''task completed'', S ''no action'', S ''thanks'',
      S ''got it'', S ''acknowledged'']"

definition urgency_weights :: "(ustring \<times> int) list" where
  "urgency_weights =
     [(S ''Immediate'', 30), (S ''Short-term'', 20), (S ''Medium-term'', 10), (S ''Low'', - 5)]"

text \<open>
  \<^verbatim>\<open>(deadline - pd.Timestamp.now()).days\<close>: the whole days from \<open>now\<close> to the deadline,
  rounded down, both in nanoseconds since the epoch.
\<close>

definition days_until :: "int \<Rightarrow> int \<Rightarrow> int" where
  "days_until deadline now = (deadline - now) div 86400000000000"

text \<open>
  Step 7 of the scoring, the body of the \<^verbatim>\<open>try\<close>: the weight of the deadline, \<open>0\<close> where
  the \<^verbatim>\<open>except\<close> clause swallows an error.
\<close>

definition deadline_weight :: "pylib \<Rightarrow> int \<Rightarrow> (ustring \<rightharpoonup> pyval) \<Rightarrow> int" where
  "deadline_weight L now data =
     (case to_datetime L (dict_get data (S ''deadline'') PNone) of
        None \<Rightarrow> 0
      | Some deadline \<Rightarrow>
          let d = days_until deadline now
          in if dict_get data (S ''action_level'') PNone = PStr (S ''Mandatory'')
             then (if d < 1 then 30 else if d < 3 then 20 else if d < 7 then 10 else 0)
             else if dict_get data (S ''action_level'') PNone = PStr (S ''Optional'')
             then (if d < 1 then 10 else 0)
             else 0)"

text \<open>
  \<^verbatim>\<open>calculate_priority_score(data, importance, subject)\<close>. The instant that
  \<^verbatim>\<open>pd.Timestamp.now()\<close> returns is the argument \<open>now\<close>. The result is \<open>Inl\<close> of the
  exception when the function raises.
\<close>

definition calculate_priority_score ::
  "pylib \<Rightarrow> int \<Rightarrow> (ustring \<rightharpoonup> pyval) \<Rightarrow> ustring \<Rightarrow> ustring \<Rightarrow> py_error + int" where
  "calculate_priority_score L now data importance subject =
    (let score = 50;
         subject_lower = lower L subject;
         score = (if contains subject_lower (S ''[high priority]'')
                     \<or> contains subject_lower (S ''[urgent]'')
                  then score + 20 else score);
         score = (if importance \<noteq> [] \<and> lower L (strip L importance) = S ''high''
                  then score + 20 else score);
         email_type = dict_get data (S ''email_type'') (PStr []);
         action_level = dict_get data (S ''action_level'') (PStr (S ''None''))
     in
     case (if email_type = PStr (S ''Notification_System'')
              \<and> action_level = PStr (S ''Mandatory'')
           then Inr 15 else weights_get type_weights email_type 0) of
       Inl e \<Rightarrow> Inl e
     | Inr w \<Rightarrow>
        let score = score + w;
            summary = lower L (py_str L (dict_get data (S ''summary'') (PStr [])));
            full_context_check =
              subject_lower @ S '' '' @ summary @ S '' ''
                @ lower L (py_str L (dict_get data (S ''project'') (PStr [])));
            score = (if list_ex (\<lambda>kw. contains full_context_check kw) spam_keywords
                     then score - 30 else score);
            is_marketing_context =
              list_ex (\<lambda>kw. contains full_context_check kw) marketing_triggers;
            score = (if is_marketing_context then score - 15 else score);
            score = (if list_ex (\<lambda>kw. contains summary kw) closure_keywords
                     then score - 20 else score);
            score = (if dict_get data (S ''action_level'') PNone = PStr (S ''Mandatory'')
                     then score + 20
                     else if dict_get data (S ''action_level'') PNone = PStr (S ''Optional'')
                     then score + 10 else score);
            score = (if dict_get data (S ''decision_level'') PNone = PStr (S ''Required'')
                     then score + 20
                     else if dict_get data (S ''decision_level'') PNone = PStr (S ''Optional'')
                     then score + 10 else score);
            detected_urgency = dict_get data (S ''urgency'') (PStr (S ''Low''))
        in
        case (if \<not> is_marketing_context then weights_get urgency_weights detected_urgency 0
              else if detected_urgency \<in> set [PStr (S ''Immediate''), PStr (S ''Short-term'')]
              then Inr (- 10) else Inr 0) of
          Inl e \<Rightarrow> Inl e
        | Inr u \<Rightarrow>
           let score = score + u;
               score = (if truthy (dict_get data (S ''blocks_others'') PNone)
                        then score + 25 else score);
               score = (if truthy (dict_get data (S ''decision_pending'') PNone)
                        then score + 15 else score);
               score = (if truthy (dict_get data (S ''deadline'') PNone)
                           \<and> \<not> is_marketing_context
                        then score + deadline_weight L now data else score)
           in Inr (max 0 (min 100 score)))"

section \<open>Priority classification\<close>

text \<open>\<^verbatim>\<open>config.TRUSTED_SENDER_DOMAINS\<close>\<close>

definition TRUSTED_SENDER_DOMAINS :: "ustring list" where
  "TRUSTED_SENDER_DOMAINS =
     [S ''sandoz.com'', S ''sandoz.net'', S ''csod.com'', S ''microsoft.com'',
      S ''sharepointonline.com'', S ''outlook.com'', S ''regaloresponsable.es'',
      S ''ilunion.com'']"

text \<open>
  \<^verbatim>\<open>check_user_overrides(text_content, sender, vip_senders)\<close>: some non-empty VIP entry,
  lower-cased, occurs in the lower-cased, stripped sender.
\<close>

definition check_user_overrides :: "pylib \<Rightarrow> ustring \<Rightarrow> ustring \<Rightarrow> ustring list \<Rightarrow> bool" where
  "check_user_overrides L text_content sender vip_senders =
     (let sender_clean = strip L (lower L sender)
      in list_ex (\<lambda>vip_entry. vip_entry \<noteq> [] \<and> contains sender_clean (lower L vip_entry))
           vip_senders)"

text \<open>
  The user configuration is a dictionary, or \<^verbatim>\<open>None\<close>; \<open>map_to_priority\<close> reads only its
  key \<^verbatim>\<open>vip_senders\<close>, which may be missing.
\<close>

record user_config =
  vip_senders :: "ustring list option"

definition get_vip_senders :: "user_config option \<Rightarrow> ustring list" where
  "get_vip_senders user_config =
     (case user_config of
        None \<Rightarrow> []
      | Some c \<Rightarrow> (case vip_senders c of None \<Rightarrow> [] | Some vs \<Rightarrow> vs))"

definition benefit_keywords :: "ustring list" where
  "benefit_keywords =
     [S ''cesta navidad'', S ''lote navidad'', S ''obsequio empresa'', S ''bonus letter'']"

definition sharing_keywords :: "ustring list" where
  "sharing_keywords = [S ''wants to share'', S ''requested access'', S ''sharing request'']"

definition support_keywords :: "ustring list" where
  "support_keywords =
     [S ''dare asking'', S ''need your support'', S ''asking for your support'',
      S ''need your help'', S ''can you help'', S ''asking for your help'',
      S ''appreciate your support'', S ''is there a way'',
      S ''is there an easy way'', S ''mentioned you'']"

definition spam_indicators :: "ustring list" where
  "spam_indicators =
     [S ''newsletter'', S ''promotional'', S ''unsubscribe'', S ''black friday'', S ''sale'']"

text \<open>
  The rules of \<^verbatim>\<open>map_to_priority\<close> that follow the three overrides, in the order of the
  source; the first one that fires returns.
\<close>

definition content_rules ::
  "pylib \<Rightarrow> ustring \<Rightarrow> ustring \<Rightarrow> ustring \<Rightarrow> ustring \<Rightarrow> ustring \<Rightarrow> ustring \<Rightarrow> bool \<Rightarrow> int
     \<Rightarrow> ustring" where
  "content_rules L sender subject body email_type action_level urgency blocks_others score =
    (let full_text = subject @ S '' '' @ body;
         is_trusted = list_ex (\<lambda>d. contains (lower L sender) d) TRUSTED_SENDER_DOMAINS
     in
     if is_trusted \<and> list_ex (\<lambda>kw. contains (lower L subject) kw) benefit_keywords
       then S ''Medium''
     else if list_ex (\<lambda>kw. contains (lower L subject) kw) sharing_keywords
             \<and> (contains (lower L sender) (S ''sharepoint'')
                  \<or> contains (lower L sender) (S ''confluence''))
       then S ''High''
     else if urgency = S ''Immediate'' \<or> blocks_others then S ''High''
     else if score \<ge> 75 then S ''High''
     else if email_type \<in> set [S ''Approval_Request'', S ''Decision_Required''] then S ''High''
     else if action_level = S ''Mandatory'' \<and> urgency = S ''Short-term'' then S ''High''
     else if email_type = S ''External_Request''
             \<and> urgency \<in> set [S ''Immediate'', S ''Short-term''] then S ''High''
     else if list_ex (\<lambda>kw. contains (lower L body) kw) support_keywords then S ''Medium''
     else if action_level \<in> set [S ''Mandatory'', S ''Optional'']
       then (if score \<ge> 50 then S ''Medium'' else S ''Medium'')
     else if \<not> is_trusted
             \<and> list_ex (\<lambda>indicator. contains (lower L full_text) indicator) spam_indicators
       then S ''Low''
     else if score < 30 \<and> action_level = S ''None'' then S ''Low''
     else if urgency = S ''Low'' \<and> action_level = S ''None'' then S ''Low''
     else S ''Medium'')"

text \<open>
  \<^verbatim>\<open>map_to_priority\<close>, with the argument types of its signature: strings, a boolean, an
  integer score, and \<^verbatim>\<open>forced_priority\<close> a string or \<^verbatim>\<open>None\<close>. \<^verbatim>\<open>decision_level\<close> and
  \<^verbatim>\<open>importance\<close> are arguments that the body never reads.
\<close>

definition map_to_priority ::
  "pylib \<Rightarrow> ustring \<Rightarrow> ustring \<Rightarrow> ustring \<Rightarrow> ustring \<Rightarrow> ustring \<Rightarrow> ustring \<Rightarrow> ustring \<Rightarrow> bool
     \<Rightarrow> int \<Rightarrow> ustring \<Rightarrow> user_config option \<Rightarrow> ustring option \<Rightarrow> bool \<Rightarrow> bool \<Rightarrow> ustring" where
  "map_to_priority L sender subject body email_type action_level decision_level urgency
     blocks_others score importance user_config forced_priority is_phishing is_spam =
    (if is_phishing \<or> is_spam then S ''Low''
     else if check_user_overrides L (subject @ S '' '' @ body) sender
               (get_vip_senders user_config)
       then S ''High''
     else
       case forced_priority of
         None \<Rightarrow>
           content_rules L sender subject body email_type action_level urgency blocks_others
             score
       | Some f \<Rightarrow>
           if f \<noteq> [] \<and> f \<in> set [S ''High'', S ''Medium'', S ''Low''] then f
           else content_rules L sender subject body email_type action_level urgency
                  blocks_others score)"

section \<open>A library for closed examples\<close>

text \<open>
  The closed examples below need one concrete \<open>pylib\<close>. Their inputs are ASCII strings, on
  which no Unicode table is consulted, and their deadlines are ISO dates
  \<^verbatim>\<open>YYYY-MM-DD\<close>, the format that the analysis prompt of the application asks for;
  \<open>iso_date\<close> reads such a date as \<^verbatim>\<open>pd.to_datetime\<close> does, as midnight of that day.
\<close>

definition is_digit :: "nat \<Rightarrow> bool" where
  "is_digit c = (48 \<le> c \<and> c \<le> 57)"

definition days_in_month :: "int \<Rightarrow> int \<Rightarrow> int" where
  "days_in_month y m =
     (if m = 2 then (if y mod 4 = 0 \<and> (y mod 100 \<noteq> 0 \<or> y mod 400 = 0) then 29 else 28)
      else if m = 4 \<or> m = 6 \<or> m = 9 \<or> m = 11 then 30 else 31)"

text \<open>Days from 1970-01-01 to the civil date \<open>y-m-d\<close> of the Gregorian calendar.\<close>

definition days_from_civil :: "int \<Rightarrow> int \<Rightarrow> int \<Rightarrow> int" where
  "days_from_civil y m d =
     (let y' = (if m \<le> 2 then y - 1 else y);
          era = y' div 400;
          yoe = y' - era * 400;
          doy = (153 * (if m > 2 then m - 3 else m + 9) + 2) div 5 + d - 1;
          doe = yoe * 365 + yoe div 4 - yoe div 100 + doy
      in era * 146097 + doe - 719468)"

definition iso_date :: "pyval \<Rightarrow> int option" where
  "iso_date v =
     (case v of
        PStr [y1, y2, y3, y4, h1, m1, m2, h2, d1, d2] \<Rightarrow>
          if list_all is_digit [y1, y2, y3, y4, m1, m2, d1, d2] \<and> h1 = 45 \<and> h2 = 45
          then let y = int (1000 * (y1 - 48) + 100 * (y2 - 48) + 10 * (y3 - 48) + (y4 - 48));
                   m = int (10 * (m1 - 48) + (m2 - 48));
                   d = int (10 * (d1 - 48) + (d2 - 48))
               in if 1 \<le> y \<and> 1 \<le> m \<and> m \<le> 12 \<and> 1 \<le> d \<and> d \<le> days_in_month y m
                  then Some (days_from_civil y m d * 86400000000000) else None
          else None
      | _ \<Rightarrow> None)"

definition ascii_lib :: pylib where
  "ascii_lib =
     \<lparr>uni_space = (\<lambda>c. False), uni_alpha = (\<lambda>c. False), uni_upper = (\<lambda>c. False),
      uni_lower = (\<lambda>c. False), uni_title = (\<lambda>c. False), uni_combining = (\<lambda>c. False),
      uni_str_lower = (\<lambda>s. s), uni_str_capitalize = (\<lambda>s. s), uni_nfkd = (\<lambda>s. s),
      py_repr = (\<lambda>v. []), to_datetime = iso_date\<rparr>"

section \<open>Theorems on the priority classification\<close>

text \<open>
  C1. Whatever the sender, subject, body, classification fields, score, importance, user
  configuration and forced priority are, \<open>map_to_priority\<close> returns \<open>Low\<close> as soon as
  \<open>is_phishing\<close> or \<open>is_spam\<close> is true: a forced priority of \<open>High\<close> or a sender on the
  VIP list do not change it.
\<close>

theorem security_flag_gives_low:
  "is_phishing \<or> is_spam \<Longrightarrow>
   map_to_priority L sender subject body email_type action_level decision_level urgency
     blocks_others score importance user_config forced_priority is_phishing is_spam = S ''Low''"
  unfolding map_to_priority_def by simp

text \<open>
  The theorem at a phishing mail from a VIP sender with forced priority \<open>High\<close>.
\<close>

theorem security_flag_gives_low_witness:
  "map_to_priority ascii_lib (S ''boss@corp.com'') (S ''Invoice'') (S ''Pay now'')
     (S ''Approval_Request'') (S ''Mandatory'') (S ''Required'') (S ''Immediate'') True 100
     (S ''high'') (Some \<lparr>vip_senders = Some [S ''boss'']\<rparr>) (Some (S ''High'')) True False
   = S ''Low''"
  using security_flag_gives_low [of True False] by simp

text \<open>
  C3, as stated: with no security flag and a valid forced priority, the forced priority is
  returned whatever the other arguments are. The VIP rule stands before the forced
  priority: a mail of a VIP sender with forced priority \<open>Low\<close> is classified \<open>High\<close>.
\<close>

theorem forced_priority_counterexample:
  "map_to_priority ascii_lib (S ''boss@corp.com'') (S ''Hello'') (S ''Body'')
     (S ''FYI_Informational'') (S ''None'') (S ''None'') (S ''Low'') False 0 []
     (Some \<lparr>vip_senders = Some [S ''boss'']\<rparr>) (Some (S ''Low'')) False False
   = S ''High''"
  by code_simp

text \<open>
  C3, amended: when \<open>is_phishing\<close> and \<open>is_spam\<close> are false, the sender matches no VIP
  pattern of the user configuration and the forced priority is \<open>High\<close>, \<open>Medium\<close> or
  \<open>Low\<close>, \<open>map_to_priority\<close> returns the forced priority, whatever the score and the
  remaining arguments are.
\<close>

theorem forced_priority_returned:
  "\<not> is_phishing \<Longrightarrow> \<not> is_spam \<Longrightarrow>
   \<not> check_user_overrides L (subject @ S '' '' @ body) sender (get_vip_senders user_config) \<Longrightarrow>
   f \<in> {S ''High'', S ''Medium'', S ''Low''} \<Longrightarrow>
   map_to_priority L sender subject body email_type action_level decision_level urgency
     blocks_others score importance user_config (Some f) is_phishing is_spam = f"
  unfolding map_to_priority_def by auto

text \<open>The amended claim at score \<open>0\<close>, with a VIP list that the sender is not on.\<close>

theorem forced_priority_returned_witness:
  "map_to_priority ascii_lib (S ''news@shop.example'') (S ''newsletter'') (S ''unsubscribe'')
     (S ''Notification_System'') (S ''None'') (S ''None'') (S ''Low'') False 0 []
     (Some \<lparr>vip_senders = Some [S ''boss'']\<rparr>) (Some (S ''High'')) False False
   = S ''High''"
proof -
  have "\<not> check_user_overrides ascii_lib (S ''newsletter'' @ S '' '' @ S ''unsubscribe'')
          (S ''news@shop.example'') (get_vip_senders (Some \<lparr>vip_senders = Some [S ''boss'']\<rparr>))"
    by code_simp
  then show ?thesis
    using forced_priority_returned [of False False ascii_lib "S ''newsletter''"
        "S ''unsubscribe''" "S ''news@shop.example''" "Some \<lparr>vip_senders = Some [S ''boss'']\<rparr>"
        "S ''High''"]
    by simp
qed

section \<open>Theorems on the priority score\<close>

lemma weights_get_hashable:
  "hashable v \<Longrightarrow> \<exists>w. weights_get ws v d = Inr w"
  by (cases v) (auto simp: weights_get_def hashable_def split: option.splits)

lemma clamped_result:
  assumes "\<exists>w. A = Inr w" and "\<And>w. \<exists>u. B w = Inr u"
  shows "\<exists>n::int. (case A of Inl e \<Rightarrow> Inl e
               | Inr w \<Rightarrow> (case B w of Inl e \<Rightarrow> Inl e
                           | Inr u \<Rightarrow> Inr (max 0 (min 100 (C w u))))) = Inr n
             \<and> 0 \<le> n \<and> n \<le> 100"
proof -
  obtain w where w: "A = Inr w" using assms(1) by blast
  obtain u where u: "B w = Inr u" using assms(2) by blast
  show ?thesis by (simp add: w u)
qed

text \<open>
  C2, as stated: the score is returned for every signal bundle. The bundle is a
  \<^verbatim>\<open>Dict[str, Any]\<close> read from JSON; when its \<^verbatim>\<open>email_type\<close> is a list, the lookup
  \<^verbatim>\<open>type_weights.get(email_type, 0)\<close> raises \<^verbatim>\<open>TypeError\<close>.
\<close>

theorem score_total_counterexample:
  "calculate_priority_score ascii_lib 0 [S ''email_type'' \<mapsto> PList []] [] [] = Inl TypeError"
  by code_simp

text \<open>
  C2, amended: for every signal bundle whose \<^verbatim>\<open>email_type\<close> and \<^verbatim>\<open>urgency\<close> are hashable
  values (a string inside or outside the enumeration, a number, a boolean, \<^verbatim>\<open>None\<close>, or
  the key is missing), every importance flag, every subject and every instant, the
  scoring function raises nothing and returns an integer between 0 and 100.
\<close>

theorem score_in_range:
  assumes "hashable (dict_get data (S ''email_type'') (PStr []))"
      and "hashable (dict_get data (S ''urgency'') (PStr (S ''Low'')))"
  shows "\<exists>n. calculate_priority_score L now data importance subject = Inr n
              \<and> 0 \<le> n \<and> n \<le> 100"
  unfolding calculate_priority_score_def Let_def
proof (rule clamped_result)
  show "\<exists>w. (if dict_get data (S ''email_type'') (PStr []) = PStr (S ''Notification_System'')
              \<and> dict_get data (S ''action_level'') (PStr (S ''None'')) = PStr (S ''Mandatory'')
           then Inr 15
           else weights_get type_weights (dict_get data (S ''email_type'') (PStr [])) 0) = Inr w"
    using weights_get_hashable [OF assms(1), of type_weights 0] by auto
next
  fix w :: int
  let ?m = "list_ex (contains (lower L subject @ S '' '' @
              lower L (py_str L (dict_get data (S ''summary'') (PStr []))) @ S '' '' @
              lower L (py_str L (dict_get data (S ''project'') (PStr []))))) marketing_triggers"
  show "\<exists>u. (if \<not> ?m
              then weights_get urgency_weights (dict_get data (S ''urgency'') (PStr (S ''Low''))) 0
              else if dict_get data (S ''urgency'') (PStr (S ''Low''))
                      \<in> set [PStr (S ''Immediate''), PStr (S ''Short-term'')]
              then Inr (- 10) else Inr 0) = Inr u"
    using weights_get_hashable [OF assms(2), of urgency_weights 0] by auto
qed

text \<open>
  The amended claim at a bundle whose \<^verbatim>\<open>email_type\<close> is a string outside the enumeration
  and whose \<^verbatim>\<open>urgency\<close> is a number.
\<close>

theorem score_in_range_witness:
  "\<exists>n. calculate_priority_score ascii_lib 0
          [S ''email_type'' \<mapsto> PStr (S ''Bogus''), S ''urgency'' \<mapsto> PInt 7]
          (S ''high'') (S ''[URGENT] budget'') = Inr n
        \<and> 0 \<le> n \<and> n \<le> 100"
proof -
  let ?d = "[S ''email_type'' \<mapsto> PStr (S ''Bogus''), S ''urgency'' \<mapsto> PInt 7]"
  have "hashable (dict_get ?d (S ''email_type'') (PStr []))" by code_simp
  moreover have "hashable (dict_get ?d (S ''urgency'') (PStr (S ''Low'')))" by code_simp
  ultimately show ?thesis by (rule score_in_range)
qed

text \<open>
  C8, as stated: two evaluations on the same bundle, importance and subject return the
  same score. The deadline step reads the clock: the same bundle, with a mandatory action
  due on 2024-01-10, scores 85 on 2024-01-09 and 65 on 2024-01-01.
\<close>

theorem score_clock_counterexample:
  "calculate_priority_score ascii_lib 1704758400000000000
     [S ''deadline'' \<mapsto> PStr (S ''2024-01-10''), S ''action_level'' \<mapsto> PStr (S ''Mandatory'')]
     [] [] = Inr 85
   \<and> calculate_priority_score ascii_lib 1704067200000000000
     [S ''deadline'' \<mapsto> PStr (S ''2024-01-10''), S ''action_level'' \<mapsto> PStr (S ''Mandatory'')]
     [] [] = Inr 65"
  by code_simp

text \<open>
  \<open>marketing_context L data subject\<close> is the flag \<^verbatim>\<open>is_marketing_context\<close> of
  \<open>calculate_priority_score\<close>: a marketing trigger occurs in the subject, the summary or
  the project.
\<close>

definition marketing_context :: "pylib \<Rightarrow> (ustring \<rightharpoonup> pyval) \<Rightarrow> ustring \<Rightarrow> bool" where
  "marketing_context L data subject =
     list_ex (\<lambda>kw. contains
         (lower L subject @ S '' ''
            @ lower L (py_str L (dict_get data (S ''summary'') (PStr []))) @ S '' ''
            @ lower L (py_str L (dict_get data (S ''project'') (PStr [])))) kw)
       marketing_triggers"

lemma deadline_weight_no_action:
  "dict_get data (S ''action_level'') PNone \<noteq> PStr (S ''Mandatory'') \<Longrightarrow>
   dict_get data (S ''action_level'') PNone \<noteq> PStr (S ''Optional'') \<Longrightarrow>
   deadline_weight L now data = 0"
  by (simp add: deadline_weight_def Let_def split: option.splits)

lemma deadline_weight_unparsed:
  "to_datetime L (dict_get data (S ''deadline'') PNone) = None \<Longrightarrow> deadline_weight L now data = 0"
  by (simp add: deadline_weight_def)

lemma deadline_weight_days:
  "to_datetime L (dict_get data (S ''deadline'') PNone) = Some t \<Longrightarrow>
   days_until t now1 = days_until t now2 \<Longrightarrow>
   deadline_weight L now1 data = deadline_weight L now2 data"
  by (simp add: deadline_weight_def Let_def)

lemma deadline_step_eq:
  assumes "\<not> T \<or> M \<or> a = b"
  shows "(if T \<and> \<not> M then x + a else x) = (if T \<and> \<not> M then x + b else (x::int))"
  using assms by auto

lemma score_clock_aux:
  assumes "\<not> truthy (dict_get data (S ''deadline'') PNone)
           \<or> marketing_context L data subject
           \<or> deadline_weight L now1 data = deadline_weight L now2 data"
  shows "calculate_priority_score L now1 data importance subject
         = calculate_priority_score L now2 data importance subject"
  unfolding calculate_priority_score_def Let_def
    deadline_step_eq [OF assms [unfolded marketing_context_def]]
  by (rule refl)

text \<open>
  C8, amended: two evaluations on the same bundle, importance flag and subject return the
  same score at any two instants, unless the bundle has a deadline that
  \<^verbatim>\<open>pd.to_datetime\<close> parses, no marketing trigger is present and \<^verbatim>\<open>action_level\<close> is
  \<open>Mandatory\<close> or \<open>Optional\<close>; and then still whenever the two instants are the same
  number of whole days before the deadline. (The score depends on the clock through the
  deadline step only.)
\<close>

theorem score_clock_independent:
  assumes "\<not> truthy (dict_get data (S ''deadline'') PNone)
           \<or> to_datetime L (dict_get data (S ''deadline'') PNone) = None
           \<or> marketing_context L data subject
           \<or> (dict_get data (S ''action_level'') PNone \<noteq> PStr (S ''Mandatory'')
               \<and> dict_get data (S ''action_level'') PNone \<noteq> PStr (S ''Optional''))
           \<or> (\<exists>t. to_datetime L (dict_get data (S ''deadline'') PNone) = Some t
                    \<and> days_until t now1 = days_until t now2)"
  shows "calculate_priority_score L now1 data importance subject
         = calculate_priority_score L now2 data importance subject"
proof (rule score_clock_aux)
  from assms
  show "\<not> truthy (dict_get data (S ''deadline'') PNone)
           \<or> marketing_context L data subject
           \<or> deadline_weight L now1 data = deadline_weight L now2 data"
  proof (elim disjE exE conjE)
    assume "\<not> truthy (dict_get data (S ''deadline'') PNone)"
    then show ?thesis by (rule disjI1)
  next
    assume u: "to_datetime L (dict_get data (S ''deadline'') PNone) = None"
    have "deadline_weight L now1 data = deadline_weight L now2 data"
      by (simp only: deadline_weight_unparsed [OF u])
    then show ?thesis by (intro disjI2)
  next
    assume "marketing_context L data subject"
    then show ?thesis by (intro disjI2 disjI1)
  next
    assume a: "dict_get data (S ''action_level'') PNone \<noteq> PStr (S ''Mandatory'')"
      and b: "dict_get data (S ''action_level'') PNone \<noteq> PStr (S ''Optional'')"
    have "deadline_weight L now1 data = deadline_weight L now2 data"
      by (simp only: deadline_weight_no_action [OF a b])
    then show ?thesis by (intro disjI2)
  next
    fix t
    assume "to_datetime L (dict_get data (S ''deadline'') PNone) = Some t"
      and "days_until t now1 = days_until t now2"
    then have "deadline_weight L now1 data = deadline_weight L now2 data"
      by (rule deadline_weight_days)
    then show ?thesis by (intro disjI2)
  qed
qed

text \<open>
  The amended claim at a bundle with a deadline and action level \<open>None\<close>, on two
  different days, and at the bundle of the counterexample, at two instants one hour apart.
\<close>

theorem score_clock_independent_witness:
  "calculate_priority_score ascii_lib 1704758400000000000
     [S ''deadline'' \<mapsto> PStr (S ''2024-01-10''), S ''action_level'' \<mapsto> PStr (S ''None'')]
     [] []
   = calculate_priority_score ascii_lib 1704067200000000000
     [S ''deadline'' \<mapsto> PStr (S ''2024-01-10''), S ''action_level'' \<mapsto> PStr (S ''None'')]
     [] []
   \<and> calculate_priority_score ascii_lib 1704758400000000000
     [S ''deadline'' \<mapsto> PStr (S ''2024-01-10''), S ''action_level'' \<mapsto> PStr (S ''Mandatory'')]
     [] []
   = calculate_priority_score ascii_lib 1704754800000000000
     [S ''deadline'' \<mapsto> PStr (S ''2024-01-10''), S ''action_level'' \<mapsto> PStr (S ''Mandatory'')]
     [] []"
proof -
  let ?d = "[S ''deadline'' \<mapsto> PStr (S ''2024-01-10''), S ''action_level'' \<mapsto> PStr (S ''None'')]"
  let ?e = "[S ''deadline'' \<mapsto> PStr (S ''2024-01-10''),
             S ''action_level'' \<mapsto> PStr (S ''Mandatory'')]"
  have "dict_get ?d (S ''action_level'') PNone \<noteq> PStr (S ''Mandatory'')
        \<and> dict_get ?d (S ''action_level'') PNone \<noteq> PStr (S ''Optional'')"
    by code_simp
  then have 1: "calculate_priority_score ascii_lib 1704758400000000000 ?d [] []
                = calculate_priority_score ascii_lib 1704067200000000000 ?d [] []"
    by (intro score_clock_independent disjI2 disjI1)
  have "to_datetime ascii_lib (dict_get ?e (S ''deadline'') PNone) = Some 1704844800000000000
        \<and> days_until 1704844800000000000 1704758400000000000
          = days_until 1704844800000000000 1704754800000000000"
    by code_simp
  then have "\<exists>t. to_datetime ascii_lib (dict_get ?e (S ''deadline'') PNone) = Some t
        \<and> days_until t 1704758400000000000 = days_until t 1704754800000000000"
    by (rule exI)
  then have 2: "calculate_priority_score ascii_lib 1704758400000000000 ?e [] []
                = calculate_priority_score ascii_lib 1704754800000000000 ?e [] []"
    by (intro score_clock_independent disjI2)
  from 1 2 show ?thesis by (rule conjI)
qed

section \<open>Theorems on the normalisation of names\<close>

lemma set_sub_runs: "set (sub_runs C s) \<subseteq> insert 32 (set s)"
  by (induction C s rule: sub_runs.induct) (auto dest: set_dropWhileD)

lemma sub_runs_class: "c \<in> set (sub_runs C s) \<Longrightarrow> \<not> C c \<or> c = 32"
  by (induction C s rule: sub_runs.induct) (auto split: if_splits)

lemma sub_runs_none: "\<forall>c\<in>set s. \<not> C c \<Longrightarrow> sub_runs C s = s"
  by (induction s) auto

text \<open>
  \<open>spaced C s\<close>: every code point of the class \<open>C\<close> in \<open>s\<close> is a space that no code
  point of the class follows. These are the strings that \<open>sub_runs C\<close> leaves alone.
\<close>

fun spaced :: "(nat \<Rightarrow> bool) \<Rightarrow> ustring \<Rightarrow> bool" where
  "spaced C [] = True"
| "spaced C [c] = (if C c then c = 32 else True)"
| "spaced C (c # d # s) = ((if C c then c = 32 \<and> \<not> C d else True) \<and> spaced C (d # s))"

lemma spaced_tl: "spaced C (c # s) \<Longrightarrow> spaced C s"
  by (cases s) (auto split: if_splits)

lemma spaced_fix: "spaced C s \<Longrightarrow> sub_runs C s = s"
proof (induction C s rule: sub_runs.induct)
  case (1 C)
  show ?case by simp
next
  case (2 C c cs)
  have tl: "spaced C cs" using "2.prems" by (rule spaced_tl)
  show ?case
  proof (cases "C c")
    case True
    have c: "c = 32" using "2.prems" True by (cases cs) (simp_all split: if_splits)
    have d: "dropWhile C cs = cs" using "2.prems" True by (cases cs) (simp_all split: if_splits)
    have "sub_runs C (dropWhile C cs) = dropWhile C cs"
      using "2.IH"(1) [OF True] tl by (simp only: d)
    then have "sub_runs C (dropWhile C cs) = cs" by (simp only: d)
    then show ?thesis using True c by simp
  next
    case False
    have "sub_runs C cs = cs" using "2.IH"(2) [OF False tl] .
    then show ?thesis using False by simp
  qed
qed

lemma spaced_Cons_sub_runs:
  "spaced C (sub_runs C s) \<Longrightarrow> \<not> C c \<Longrightarrow> spaced C (c # sub_runs C s)"
  by (cases "sub_runs C s") auto

lemma hd_dropWhile_sub_runs:
  "C 32 \<Longrightarrow> spaced C (sub_runs C (dropWhile C cs)) \<Longrightarrow> spaced C (32 # sub_runs C (dropWhile C cs))"
proof (cases "dropWhile C cs")
  case Nil
  then show "C 32 \<Longrightarrow> spaced C (sub_runs C (dropWhile C cs)) \<Longrightarrow> ?thesis"
    by (simp del: dropWhile_eq_Nil_conv)
next
  case (Cons d ds)
  then have "\<not> C d" using hd_dropWhile [of C cs] by auto
  then show "C 32 \<Longrightarrow> spaced C (sub_runs C (dropWhile C cs)) \<Longrightarrow> ?thesis"
    using Cons by auto
qed

lemma spaced_sub_runs: "C 32 \<Longrightarrow> spaced C (sub_runs C s)"
proof (induction C s rule: sub_runs.induct)
  case (1 C)
  show ?case by simp
next
  case (2 C c cs)
  show ?case
  proof (cases "C c")
    case True
    then show ?thesis using "2.IH"(1) "2.prems" hd_dropWhile_sub_runs by simp
  next
    case False
    then show ?thesis using "2.IH"(2) "2.prems" spaced_Cons_sub_runs by simp
  qed
qed

lemma spaced_drop: "spaced C s \<Longrightarrow> spaced C (drop n s)"
proof (induction n arbitrary: s)
  case 0
  then show ?case by simp
next
  case (Suc n)
  then show ?case by (cases s) (auto dest: spaced_tl)
qed

lemma spaced_take: "spaced C s \<Longrightarrow> spaced C (take n s)"
proof (induction C s arbitrary: n rule: spaced.induct)
  case (1 C)
  then show ?case by simp
next
  case (2 C c)
  then show ?case by (cases n) auto
next
  case (3 C c d s)
  show ?case
  proof (cases n)
    case 0
    then show ?thesis by simp
  next
    case (Suc m)
    have "spaced C (take m (d # s))" using 3 by simp
    then show ?thesis using Suc "3.prems" by (cases m) (auto split: if_splits)
  qed
qed

lemma strip_take_drop: "\<exists>m n. strip L s = take m (drop n s)"
proof -
  let ?P = "is_space L"
  have "strip L s = rev (drop (length (takeWhile ?P (rev (dropWhile ?P s)))) (rev (dropWhile ?P s)))"
    unfolding strip_def by (simp add: dropWhile_eq_drop [symmetric])
  also have "\<dots> = take (length (dropWhile ?P s) - length (takeWhile ?P (rev (dropWhile ?P s)))) (dropWhile ?P s)"
    by (simp add: rev_drop)
  also have "dropWhile ?P s = drop (length (takeWhile ?P s)) s"
    by (rule dropWhile_eq_drop)
  finally show ?thesis by blast
qed

lemma spaced_strip: "spaced C s \<Longrightarrow> spaced C (strip L s)"
proof -
  assume s: "spaced C s"
  obtain m n where "strip L s = take m (drop n s)" using strip_take_drop by blast
  then show ?thesis using s by (simp add: spaced_take spaced_drop)
qed

lemma set_strip: "set (strip L s) \<subseteq> set s"
proof -
  obtain m n where "strip L s = take m (drop n s)" using strip_take_drop by blast
  then show ?thesis using set_take_subset [of m "drop n s"] set_drop_subset [of n s] by simp
qed

lemma rstrip_hd:
  "rev (dropWhile P (rev xs)) = [] \<or> hd (rev (dropWhile P (rev xs))) = hd xs"
proof (induction xs rule: rev_induct)
  case Nil
  show ?case by simp
next
  case (snoc y ys)
  show ?case
  proof (cases "P y")
    case True
    then show ?thesis using snoc by (cases ys) auto
  next
    case False
    then show ?thesis by simp
  qed
qed

lemma dropWhile_fix: "xs = [] \<or> \<not> P (hd xs) \<Longrightarrow> dropWhile P xs = xs"
  by (cases xs) auto

lemma strip_idem: "strip L (strip L s) = strip L s"
proof -
  let ?P = "is_space L"
  let ?t = "dropWhile ?P s"
  let ?r = "rev (dropWhile ?P (rev ?t))"
  have t: "?t = [] \<or> \<not> ?P (hd ?t)" using hd_dropWhile [of ?P s] by blast
  have "?r = [] \<or> \<not> ?P (hd ?r)"
  proof (cases "?t = []")
    case True
    then have "?r = []" by (simp only: rev.simps dropWhile.simps)
    then show ?thesis ..
  next
    case False
    then have "\<not> ?P (hd ?t)" using t by blast
    then show ?thesis using rstrip_hd [of ?P ?t] by auto
  qed
  then have 1: "dropWhile ?P ?r = ?r" by (rule dropWhile_fix)
  have "strip L (strip L s) = rev (dropWhile ?P (rev (dropWhile ?P ?r)))"
    by (simp add: strip_def)
  also have "\<dots> = rev (dropWhile ?P (rev ?r))" by (simp only: 1)
  also have "\<dots> = ?r" by simp
  finally show ?thesis by (simp add: strip_def)
qed

text \<open>
  The result of \<open>proj_norm_key_raw\<close> is a clean key: lower-case ASCII letters and digits,
  separated by single spaces, with no space at either end.
\<close>

definition keych :: "nat \<Rightarrow> bool" where
  "keych c = ((97 \<le> c \<and> c \<le> 122) \<or> (48 \<le> c \<and> c \<le> 57))"

definition clean_key :: "pylib \<Rightarrow> ustring \<Rightarrow> bool" where
  "clean_key L r = (spaced (is_space L) r \<and> list_all (\<lambda>c. keych c \<or> c = 32) r \<and> strip L r = r)"

lemma is_space_32: "is_space L 32"
  by (simp add: is_space_def)

lemma keych_not_space: "keych c \<Longrightarrow> \<not> is_space L c"
  by (auto simp: keych_def is_space_def)

lemma fold_chars:
  "list_all (\<lambda>c. keych c \<or> c = 32) (sub_runs (is_space L) (sub_runs (not_key_char L) y))"
proof -
  have "keych c \<or> c = 32"
    if c: "c \<in> set (sub_runs (is_space L) (sub_runs (not_key_char L) y))" for c
  proof (cases "c = 32")
    case True
    then show ?thesis by simp
  next
    case False
    then have 1: "\<not> is_space L c" using sub_runs_class [OF c] by simp
    have "c \<in> set (sub_runs (not_key_char L) y)" using c set_sub_runs False by fastforce
    then have "\<not> not_key_char L c" using sub_runs_class False by blast
    then show ?thesis using 1 by (auto simp: not_key_char_def keych_def)
  qed
  then show ?thesis by (simp add: list_all_iff)
qed

lemma list_all_strip: "list_all P s \<Longrightarrow> list_all P (strip L s)"
  using set_strip [of L s] by (auto simp: list_all_iff)

lemma proj_norm_key_raw_clean: "clean_key L (proj_norm_key_raw L s)"
proof (cases "strip L s = []")
  case True
  then show ?thesis by (simp add: proj_norm_key_raw_def clean_key_def strip_def)
next
  case False
  let ?y = "filter (\<lambda>ch. \<not> combining L ch) (nfkd L (lower L (strip L (PROJECT_PREFIX_RE_sub L (strip L s)))))"
  let ?z = "sub_runs (is_space L) (sub_runs (not_key_char L) ?y)"
  have r: "proj_norm_key_raw L s = strip L ?z"
    using False by (simp add: proj_norm_key_raw_def Let_def)
  have "spaced (is_space L) ?z" by (rule spaced_sub_runs) (rule is_space_32)
  then have 1: "spaced (is_space L) (strip L ?z)" by (rule spaced_strip)
  have 2: "list_all (\<lambda>c. keych c \<or> c = 32) (strip L ?z)"
    by (rule list_all_strip) (rule fold_chars)
  show ?thesis unfolding r clean_key_def using 1 2 strip_idem by simp
qed

lemma clean_ascii: "list_all (\<lambda>c. keych c \<or> c = 32) r \<Longrightarrow> is_ascii r"
  by (auto simp: is_ascii_def list_all_iff keych_def)

lemma clean_lower: "list_all (\<lambda>c. keych c \<or> c = 32) r \<Longrightarrow> lower L r = r"
proof -
  assume a: "list_all (\<lambda>c. keych c \<or> c = 32) r"
  have "map ascii_lower r = r"
    using a by (induction r) (auto simp: ascii_lower_def keych_def)
  then show ?thesis using clean_ascii [OF a] by (simp add: lower_def)
qed

lemma clean_combining: "list_all (\<lambda>c. keych c \<or> c = 32) r \<Longrightarrow> filter (\<lambda>ch. \<not> combining L ch) r = r"
  by (induction r) (auto simp: combining_def keych_def)

lemma clean_key_chars: "list_all (\<lambda>c. keych c \<or> c = 32) r \<Longrightarrow> sub_runs (not_key_char L) r = r"
  by (rule sub_runs_none) (auto simp: list_all_iff not_key_char_def keych_def is_space_def)

lemma clean_key_fix:
  assumes "clean_key L r" and "PROJECT_PREFIX_RE_match L r = None"
  shows "proj_norm_key_raw L r = r"
proof (cases "r = []")
  case True
  then show ?thesis by (simp add: proj_norm_key_raw_def strip_def)
next
  case False
  have s: "strip L r = r" and a: "list_all (\<lambda>c. keych c \<or> c = 32) r"
    and sp: "spaced (is_space L) r"
    using assms(1) by (simp_all add: clean_key_def)
  have p: "PROJECT_PREFIX_RE_sub L r = r" using assms(2) by (simp add: PROJECT_PREFIX_RE_sub_def)
  have "proj_norm_key_raw L r =
        strip L (sub_runs (is_space L) (sub_runs (not_key_char L)
          (filter (\<lambda>ch. \<not> combining L ch) (nfkd L (lower L r)))))"
    using False by (simp add: proj_norm_key_raw_def Let_def s p)
  also have "\<dots> = strip L (sub_runs (is_space L) r)"
    by (simp add: clean_lower [OF a] nfkd_def clean_ascii [OF a] clean_combining [OF a]
        clean_key_chars [OF a])
  also have "\<dots> = r" by (simp add: spaced_fix [OF sp] s)
  finally show ?thesis .
qed

text \<open>
  C6, as stated: \<open>normalizeKey(normalizeKey(s)) = normalizeKey(s)\<close> for every string. The
  normaliser strips one project prefix from the front of the string; when the name
  carries the prefix twice, the second application strips the second one.
\<close>

theorem norm_key_idempotent_counterexample:
  "proj_norm_key_raw_any ascii_lib (PStr (S ''proyecto proyecto alpha'')) = S ''proyecto alpha''
   \<and> proj_norm_key_raw_any ascii_lib
         (PStr (proj_norm_key_raw_any ascii_lib (PStr (S ''proyecto proyecto alpha''))))
       = S ''alpha''"
  by code_simp

text \<open>
  C6, amended: the key normaliser is total on every value, \<^verbatim>\<open>None\<close> and values that are not
  strings included (it is a function of the model with no error branch), and it is
  idempotent on every value whose normalised key does not itself start with a project
  prefix (\<open>proyecto\<close>, \<open>project\<close>, \<open>proj\<close> or \<open>proy\<close>, followed by white space):
  there \<open>normalizeKey(normalizeKey(s)) = normalizeKey(s)\<close>.
\<close>

theorem norm_key_idempotent:
  "PROJECT_PREFIX_RE_match L (proj_norm_key_raw_any L v) = None \<Longrightarrow>
   proj_norm_key_raw_any L (PStr (proj_norm_key_raw_any L v)) = proj_norm_key_raw_any L v"
  unfolding proj_norm_key_raw_any_def
  by (simp add: coerce_str_def clean_key_fix proj_norm_key_raw_clean)

text \<open>
  The amended claim at the spec's example \<open>"  Proyecto   Zeta-2! "\<close>, whose key is
  \<open>"zeta 2"\<close>, and at \<^verbatim>\<open>None\<close>, whose key is empty.
\<close>

theorem norm_key_idempotent_witness:
  "proj_norm_key_raw_any ascii_lib (PStr (S ''  Proyecto   Zeta-2! '')) = S ''zeta 2''
   \<and> proj_norm_key_raw_any ascii_lib
         (PStr (proj_norm_key_raw_any ascii_lib (PStr (S ''  Proyecto   Zeta-2! ''))))
       = proj_norm_key_raw_any ascii_lib (PStr (S ''  Proyecto   Zeta-2! ''))
   \<and> proj_norm_key_raw_any ascii_lib (PStr (proj_norm_key_raw_any ascii_lib PNone))
       = proj_norm_key_raw_any ascii_lib PNone"
proof -
  have 1: "proj_norm_key_raw_any ascii_lib (PStr (S ''  Proyecto   Zeta-2! '')) = S ''zeta 2''"
    by code_simp
  have "PROJECT_PREFIX_RE_match ascii_lib
          (proj_norm_key_raw_any ascii_lib (PStr (S ''  Proyecto   Zeta-2! ''))) = None"
    by code_simp
  note 2 = norm_key_idempotent [OF this]
  have "PROJECT_PREFIX_RE_match ascii_lib (proj_norm_key_raw_any ascii_lib PNone) = None"
    by code_simp
  note 3 = norm_key_idempotent [OF this]
  show ?thesis using 1 2 3 by blast
qed

section \<open>Theorems on the canonical map\<close>

text \<open>
  \<open>counted L v\<close>: the counting loop counts the value \<open>v\<close>; \<open>names_in L vals\<close>: the
  names that it counts, each stripped; \<open>clustered_names L vals\<close>: those of them whose
  normalised key is not empty, which are the names that the clustering loop does not skip.
\<close>

definition counted :: "pylib \<Rightarrow> pyval \<Rightarrow> bool" where
  "counted L v = (v \<noteq> PNone \<and> \<not> null_like L (strip L (py_str L v)))"

definition names_in :: "pylib \<Rightarrow> pyval list \<Rightarrow> ustring list" where
  "names_in L vals = map (\<lambda>v. strip L (py_str L v)) (filter (counted L) vals)"

definition clustered_names :: "pylib \<Rightarrow> pyval list \<Rightarrow> ustring list" where
  "clustered_names L vals = filter (\<lambda>s. proj_norm_key L s \<noteq> []) (names_in L vals)"

lemma count_value_keys:
  "fst ` set (count_value L counts v) =
     fst ` set counts \<union> (if counted L v then {strip L (py_str L v)} else {})"
  by (auto simp: count_value_def counted_def Let_def AList.dom_update)

lemma counts_keys:
  "fst ` set (foldl (count_value L) counts vals) = fst ` set counts \<union> set (names_in L vals)"
proof (induction vals arbitrary: counts)
  case Nil
  show ?case by (simp add: names_in_def)
next
  case (Cons v vals)
  show ?case
    unfolding foldl_Cons Cons.IH count_value_keys
    by (auto simp: names_in_def)
qed



lemma set_insert_sorted: "set (insert_sorted f x ys) = insert x (set ys)"
  by (induction ys) auto

lemma set_py_sorted: "set (py_sorted f xs) = set xs"
  unfolding py_sorted_def by (induction xs) (simp_all add: set_insert_sorted)



definition members_of :: "cluster list \<Rightarrow> ustring list" where
  "members_of clusters = concat (map cl_members clusters)"

lemma members_place:
  "set (members_of (place L key orig clusters)) = insert orig (set (members_of clusters))"
  by (induction clusters) (auto simp: members_of_def)

lemma members_cluster_step:
  "set (members_of (cluster_step L clusters orig)) =
     set (members_of clusters) \<union> (if proj_norm_key L orig = [] then {} else {orig})"
  by (simp add: cluster_step_def Let_def members_place)

lemma members_clusters:
  "set (members_of (foldl (cluster_step L) clusters uniques)) =
     set (members_of clusters) \<union> {u \<in> set uniques. proj_norm_key L u \<noteq> []}"
proof (induction uniques arbitrary: clusters)
  case Nil
  show ?case by simp
next
  case (Cons u us)
  show ?case unfolding foldl_Cons Cons.IH members_cluster_step by auto
qed

lemma place_nonempty:
  "list_all (\<lambda>cl. cl_members cl \<noteq> []) clusters \<Longrightarrow>
   list_all (\<lambda>cl. cl_members cl \<noteq> []) (place L key orig clusters)"
  by (induction clusters) auto

lemma clusters_nonempty:
  "list_all (\<lambda>cl. cl_members cl \<noteq> []) clusters \<Longrightarrow>
   list_all (\<lambda>cl. cl_members cl \<noteq> []) (foldl (cluster_step L) clusters uniques)"
  by (induction uniques arbitrary: clusters) (simp_all add: cluster_step_def Let_def place_nonempty)

lemma canonical_name_total:
  "members \<noteq> [] \<Longrightarrow> \<exists>canon. canonical_name L counts members = Inr canon"
  by (cases members) (simp_all add: canonical_name_def)

lemma keys_foldl_update:
  "fst ` set (foldl (\<lambda>mapping m. AList.update m canon mapping) mapping members) =
     fst ` set mapping \<union> set members"
  by (induction members arbitrary: mapping) (auto simp: AList.dom_update)

lemma map_clusters_total:
  "list_all (\<lambda>cl. cl_members cl \<noteq> []) clusters \<Longrightarrow>
   \<exists>m. map_clusters L counts mapping clusters = Inr m
       \<and> fst ` set m = fst ` set mapping \<union> set (members_of clusters)"
proof (induction clusters arbitrary: mapping)
  case Nil
  show ?case by (simp add: members_of_def)
next
  case (Cons cl clusters)
  then have ne: "cl_members cl \<noteq> []" and rest: "list_all (\<lambda>cl. cl_members cl \<noteq> []) clusters"
    by simp_all
  obtain canon where c: "canonical_name L counts (cl_members cl) = Inr canon"
    using canonical_name_total [OF ne] by blast
  let ?mapping = "foldl (\<lambda>mapping m. AList.update m canon mapping) mapping (cl_members cl)"
  obtain m where m: "map_clusters L counts ?mapping clusters = Inr m"
    and k: "fst ` set m = fst ` set ?mapping \<union> set (members_of clusters)"
    using Cons.IH [OF rest, of ?mapping] by blast
  have "map_clusters L counts mapping (cl # clusters) = Inr m" using c m by simp
  moreover have "fst ` set m = fst ` set mapping \<union> set (members_of (cl # clusters))"
    unfolding k keys_foldl_update by (auto simp: members_of_def)
  ultimately show ?case by blast
qed

lemma build_total:
  "\<exists>m. build_project_canonical_map L vals = Inr m
       \<and> fst ` set m = set (clustered_names L vals)"
proof -
  let ?counts = "foldl (count_value L) [] vals"
  let ?uniques = "map fst (py_sorted (\<lambda>(x, c). (- c, length x)) ?counts)"
  let ?clusters = "foldl (cluster_step L) [] ?uniques"
  have keys: "fst ` set ?counts = set (names_in L vals)"
    using counts_keys [of L "[]" vals] by simp
  show ?thesis
  proof (cases "?counts = []")
    case True
    then have "set (names_in L vals) = {}" using keys by simp
    then show ?thesis using True
      by (simp add: build_project_canonical_map_def clustered_names_def)
  next
    case False
    have u: "set ?uniques = set (names_in L vals)"
      using keys by (simp add: set_py_sorted)
    have "list_all (\<lambda>cl. cl_members cl \<noteq> []) ?clusters"
      by (rule clusters_nonempty) simp
    then obtain m where m: "map_clusters L ?counts [] ?clusters = Inr m"
      and k: "fst ` set m = fst ` set ([] :: (ustring \<times> ustring) list) \<union> set (members_of ?clusters)"
      using map_clusters_total [of ?clusters L ?counts "[]"] by blast
    have "set (members_of ?clusters) = {u \<in> set ?uniques. proj_norm_key L u \<noteq> []}"
      using members_clusters [of L "[]" ?uniques] by (simp add: members_of_def)
    then have "fst ` set m = set (clustered_names L vals)"
      using k u by (auto simp: clustered_names_def)
    moreover have "build_project_canonical_map L vals = Inr m"
      using False m by (simp add: build_project_canonical_map_def Let_def)
    ultimately show ?thesis by blast
  qed
qed

text \<open>
  C7. On the batch with \<open>"Proyecto Alpha"\<close> three times, \<open>"ALPHA"\<close> twice,
  \<open>"proyecto alpha"\<close> once and \<open>"Alpha Implementation"\<close> once, the four names share the
  key \<open>alpha\<close> and fall in one cluster; its best member is \<open>"Proyecto Alpha"\<close> and every
  name is mapped to \<open>"Alpha"\<close>, whatever the library does beyond ASCII.
\<close>

theorem alpha_batch_canonical:
  "build_project_canonical_map L
     [PStr (S ''Proyecto Alpha''), PStr (S ''Proyecto Alpha''), PStr (S ''Proyecto Alpha''),
      PStr (S ''ALPHA''), PStr (S ''ALPHA''), PStr (S ''proyecto alpha''),
      PStr (S ''Alpha Implementation'')]
   = Inr [(S ''Proyecto Alpha'', S ''Alpha''), (S ''ALPHA'', S ''Alpha''),
          (S ''proyecto alpha'', S ''Alpha''), (S ''Alpha Implementation'', S ''Alpha'')]"
  by code_simp

text \<open>
  C5, as stated: every value that is not empty after trimming and is not \<open>none\<close>,
  \<open>nan\<close> or \<open>null\<close> is a key of the map. The clustering loop skips a name whose
  normalised key is empty: \<open>"!!!"\<close> is counted and is no key of the map.
\<close>

theorem canonical_map_keys_counterexample:
  "build_project_canonical_map ascii_lib [PStr (S ''Alpha''), PStr (S ''!!!'')]
   = Inr [(S ''Alpha'', S ''Alpha'')]"
  by code_simp

text \<open>
  C5, amended: for every sequence of raw project values, \<open>build_project_canonical_map\<close>
  returns a map (it raises nothing) whose keys are exactly the trimmed forms of the values
  that are not \<^verbatim>\<open>None\<close>, are not empty after trimming, are not \<open>none\<close>, \<open>nan\<close> or \<open>null\<close>
  in lower case, and have a non-empty normalised key.
\<close>

theorem canonical_map_keys:
  "\<exists>m. build_project_canonical_map L vals = Inr m
       \<and> fst ` set m =
           {s. \<exists>v\<in>set vals. v \<noteq> PNone \<and> s = strip L (py_str L v) \<and> \<not> null_like L s
                 \<and> proj_norm_key L s \<noteq> []}"
proof -
  obtain m where "build_project_canonical_map L vals = Inr m"
    and "fst ` set m = set (clustered_names L vals)"
    using build_total by blast
  moreover have "set (clustered_names L vals) =
           {s. \<exists>v\<in>set vals. v \<noteq> PNone \<and> s = strip L (py_str L v) \<and> \<not> null_like L s
                 \<and> proj_norm_key L s \<noteq> []}"
    by (auto simp: clustered_names_def names_in_def counted_def)
  ultimately show ?thesis by simp
qed

lemma apply_map_null:
  "v = PNone \<or> null_like L (strip L (py_str L v)) \<Longrightarrow> apply_map L proj_map v = PStr (S ''None'')"
  by (auto simp: apply_map_def Let_def)

text \<open>
  C9, as stated: the rewrite leaves absent and null-like values as they are. When the
  canonical map of the batch is not empty, \<^verbatim>\<open>_apply\<close> returns the string \<open>"None"\<close> for
  them: the string \<open>"nan"\<close> and the value \<^verbatim>\<open>None\<close> both become \<open>"None"\<close>.
\<close>

theorem unify_null_like_counterexample:
  "unify_projects_in_df ascii_lib [PStr (S ''Alpha''), PStr (S ''nan''), PNone]
   = Inr [PStr (S ''Alpha''), PStr (S ''None''), PStr (S ''None'')]"
  by code_simp

text \<open>
  C9, amended: when the canonical map is applied over a batch, every value that is absent
  (\<^verbatim>\<open>None\<close>) or null-like (empty after trimming, or \<open>none\<close>, \<open>nan\<close>, \<open>null\<close> in any case) is
  replaced by the string \<open>"None"\<close>; only when the canonical map of the batch is empty is
  the batch, and the value with it, returned unchanged.
\<close>

theorem unify_null_like:
  assumes "i < length col"
    and "col ! i = PNone \<or> null_like L (strip L (py_str L (col ! i)))"
  shows "\<exists>m col'. build_project_canonical_map L col = Inr m
           \<and> unify_projects_in_df L col = Inr col'
           \<and> length col' = length col
           \<and> col' ! i = (if m = [] then col ! i else PStr (S ''None''))"
proof -
  obtain m where m: "build_project_canonical_map L col = Inr m"
    using build_total by blast
  have ne: "col \<noteq> []" using assms(1) by auto
  show ?thesis
  proof (cases "m = []")
    case True
    then have "unify_projects_in_df L col = Inr col"
      using m by (simp add: unify_projects_in_df_def)
    then show ?thesis using m True by simp
  next
    case False
    then have "unify_projects_in_df L col = Inr (map (apply_map L m) col)"
      using m ne by (simp add: unify_projects_in_df_def)
    moreover have "map (apply_map L m) col ! i = PStr (S ''None'')"
      using assms by (simp add: apply_map_null)
    ultimately show ?thesis using m False by simp
  qed
qed

text \<open>
  The amended claim at the second value of the batch above, and at a batch whose map is
  empty.
\<close>

theorem unify_null_like_witness:
  "(\<exists>m col'. build_project_canonical_map ascii_lib
                 [PStr (S ''Alpha''), PStr (S ''nan''), PNone] = Inr m
      \<and> unify_projects_in_df ascii_lib [PStr (S ''Alpha''), PStr (S ''nan''), PNone] = Inr col'
      \<and> length col' = length [PStr (S ''Alpha''), PStr (S ''nan''), PNone]
      \<and> col' ! 1 = (if m = [] then [PStr (S ''Alpha''), PStr (S ''nan''), PNone] ! 1
                     else PStr (S ''None'')))
   \<and> (\<exists>m col'. build_project_canonical_map ascii_lib [PStr (S ''NULL''), PStr (S ''!!!'')] = Inr m
      \<and> unify_projects_in_df ascii_lib [PStr (S ''NULL''), PStr (S ''!!!'')] = Inr col'
      \<and> length col' = length [PStr (S ''NULL''), PStr (S ''!!!'')]
      \<and> col' ! 0 = (if m = [] then [PStr (S ''NULL''), PStr (S ''!!!'')] ! 0
                     else PStr (S ''None'')))"
proof -
  have "null_like ascii_lib (strip ascii_lib (py_str ascii_lib (PStr (S ''nan''))))"
    by code_simp
  then have 1: "[PStr (S ''Alpha''), PStr (S ''nan''), PNone] ! 1 = PNone
      \<or> null_like ascii_lib (strip ascii_lib (py_str ascii_lib
           ([PStr (S ''Alpha''), PStr (S ''nan''), PNone] ! 1)))"
    by simp
  have "null_like ascii_lib (strip ascii_lib (py_str ascii_lib (PStr (S ''NULL''))))"
    by code_simp
  then have 2: "[PStr (S ''NULL''), PStr (S ''!!!'')] ! 0 = PNone
      \<or> null_like ascii_lib (strip ascii_lib (py_str ascii_lib
           ([PStr (S ''NULL''), PStr (S ''!!!'')] ! 0)))"
    by simp
  have a: "1 < length [PStr (S ''Alpha''), PStr (S ''nan''), PNone]" by simp
  have b: "0 < length [PStr (S ''NULL''), PStr (S ''!!!'')]" by simp
  from unify_null_like [OF a 1] unify_null_like [OF b 2] show ?thesis by (rule conjI)
qed









text \<open>
  A second rewrite changes a batch also when no name carries a prefix, through the order
  in which \<open>projects_similar\<close> gives the two keys to the ratio: in the batch below
  \<open>"hr qa a"\<close> is compared with the cluster of \<open>"hr a qa"\<close> and stays apart, and in the
  rewritten batch \<open>"Hr a qa"\<close> is compared with the cluster of \<open>"Hr qa a"\<close>, now the more
  frequent name, and joins it.
\<close>

lemma unification_ratio_order:
  "unify_projects_in_df ascii_lib
     [PStr (S ''hr a qa''), PStr (S ''hr a qa''), PStr (S ''hr qa a''), PStr (S ''HR QA A''),
      PStr (S ''Hr Qa A'')]
     = Inr [PStr (S ''Hr a qa''), PStr (S ''Hr a qa''), PStr (S ''Hr qa a''),
            PStr (S ''Hr qa a''), PStr (S ''Hr qa a'')]
   \<and> build_project_canonical_map ascii_lib
       [PStr (S ''Hr a qa''), PStr (S ''Hr a qa''), PStr (S ''Hr qa a''),
        PStr (S ''Hr qa a''), PStr (S ''Hr qa a'')]
     = Inr [(S ''Hr qa a'', S ''Hr qa a''), (S ''Hr a qa'', S ''Hr qa a'')]"
  by code_simp





























section \<open>Theorems on the similarity of names\<close>

text \<open>
  Every rule of \<open>projects_similar\<close> but the two tests of the ratio treats the two names
  alike: when the ratio of \<^verbatim>\<open>SequenceMatcher\<close> passes the two bounds in one order of the names
  exactly when it does in the other, the decision is the same in both orders.
\<close>

lemma projects_similar_commute:
  assumes "ratio_at_least a_key b_key 88 = ratio_at_least b_key a_key 88"
    and "ratio_at_least a_key b_key 80 = ratio_at_least b_key a_key 80"
  shows "projects_similar L a_key b_key a_orig b_orig = projects_similar L b_key a_key b_orig a_orig"
proof -
  have 1: "(a_key = b_key) = (b_key = a_key)" by auto
  have 2: "(take 3 a_key = take 3 b_key) = (take 3 b_key = take 3 a_key)" by auto
  have 3: "(contains b_key a_key \<or> contains a_key b_key) = (contains a_key b_key \<or> contains b_key a_key)"
    by auto
  show ?thesis
    unfolding projects_similar_def assms 1 2 3 min.commute [of "length a_key"]
      max.commute [of "length a_key"]
    by (cases "a_key = []"; cases "b_key = []"; cases "abbrev_matches L a_key a_orig b_key";
        cases "abbrev_matches L b_key b_orig a_key"; auto)
qed

text \<open>
  C10. The decision is not symmetric: the matching blocks of \<^verbatim>\<open>SequenceMatcher\<close> depend on
  the order of its two arguments. For the keys \<open>"hr a qa"\<close> and \<open>"hr qa a"\<close> (both at most
  12 long, with the same first three characters) the ratio is \<open>12/14\<close> in one order,
  which reaches \<open>0.80\<close>, and \<open>10/14\<close> in the other, which does not.
\<close>

theorem projects_similar_not_symmetric:
  "projects_similar L (S ''hr a qa'') (S ''hr qa a'') (S ''hr a qa'') (S ''hr qa a'')
   \<and> \<not> projects_similar L (S ''hr qa a'') (S ''hr a qa'') (S ''hr qa a'') (S ''hr a qa'')"
  by code_simp

end
